theory Spec2Isabelle
  imports Main
begin

chapter \<open>mcp-proxy: a proxy for MCP servers\<close>

text \<open>
  A shallow embedding of the Go program: the configuration provider, the upstream
  clients and their manager, the proxy server that republishes the catalog of one
  upstream, the middleware and the start of the application, each function under the
  name it has in the source. The definitions come first, the verified properties after
  them.
\<close>

section \<open>Configuration model (internal/interfaces/interfaces.go)\<close>

text \<open>
  Go strings are byte strings and are modelled as \<open>string\<close> (a list of 8-bit characters).
  A Go \<open>error\<close> is modelled by its message; a nil error or nil pointer is \<open>None\<close>.
  A nil slice is \<open>None\<close>, a non-nil slice \<open>Some xs\<close>, where the code tells them apart.
  Calls of \<open>log.Printf\<close> have no influence on any result and are left out.
\<close>

record ToolFilterConfig =
  Mode :: string
  List :: "string list"

record OptionsConfig =
  PanicIfInvalid :: "bool option"
  LogEnabled :: "bool option"
  AuthTokens :: "string list option"
  ToolFilter :: "ToolFilterConfig option"

record ProxyConfig =
  BaseURL :: string
  Addr :: string
  ProxyName :: string
  Version :: string
  Type :: string
  ProxyOptions :: "OptionsConfig option"

record ServerConfig =
  Transport :: string
  Command :: string
  Args :: "string list"
  Env :: "(string \<times> string) list"
  URL :: string
  Headers :: "(string \<times> string) list"
  Timeout :: int
  Options :: "OptionsConfig option"

text \<open>
  \<open>Config.Servers\<close> is a Go map; it is kept as an association list with distinct keys.
  Go ranges over a map in an unspecified order: the order of the list stands for the
  order of one run.
\<close>

record Config =
  Proxy :: ProxyConfig
  Servers :: "(string \<times> ServerConfig) list"

definition TransportTypeSSE :: string where "TransportTypeSSE = ''sse''"
definition TransportTypeHTTP :: string where "TransportTypeHTTP = ''streamable-http''"
definition ClientTypeStdio :: string where "ClientTypeStdio = ''stdio''"
definition ClientTypeSSE :: string where "ClientTypeSSE = ''sse''"
definition ClientTypeStreamable :: string where "ClientTypeStreamable = ''streamable-http''"
definition ToolFilterModeAllow :: string where "ToolFilterModeAllow = ''allow''"
definition ToolFilterModeBlock :: string where "ToolFilterModeBlock = ''block''"

section \<open>Go standard library: strings.ToLower\<close>

text \<open>
  \<open>strings.ToLower\<close> has a fast path for strings of ASCII bytes only, which maps
  \<open>A\<close>..\<open>Z\<close> to \<open>a\<close>..\<open>z\<close>; any other string goes through the Unicode case tables
  (\<open>strings.Map(unicode.ToLower, s)\<close>). The tables are not part of the repository:
  that mapping is the parameter \<open>uni\<close>, and every theorem holds for every \<open>uni\<close>.
\<close>

definition isASCII :: "string \<Rightarrow> bool" where
  "isASCII s = list_all (\<lambda>c. (of_char c :: nat) < 128) s"

definition lowerASCII :: "char \<Rightarrow> char" where
  "lowerASCII c =
     (if (65::nat) \<le> of_char c \<and> (of_char c :: nat) \<le> 90 then char_of ((of_char c :: nat) + 32) else c)"

definition ToLower :: "(string \<Rightarrow> string) \<Rightarrow> string \<Rightarrow> string" where
  "ToLower uni s = (if isASCII s then map lowerASCII s else uni s)"

section \<open>The upstream client (internal/client)\<close>

record Tool =
  Name :: string
  Description :: string

record Prompt =
  PromptName :: string

record Resource =
  ResourceURI :: string
  ResourceName :: string

record ResourceTemplate =
  TemplateName :: string

record ListToolsResult =
  Tools :: "Tool list"
  NextCursor :: string

record ListPromptsResult =
  Prompts :: "Prompt list"
  PromptsNextCursor :: string

record ListResourcesResult =
  Resources :: "Resource list"
  ResourcesNextCursor :: string

record ListResourceTemplatesResult =
  ResourceTemplates :: "ResourceTemplate list"
  TemplatesNextCursor :: string

text \<open>
  The mcp-go client behind \<open>c.client\<close> is an external library. \<open>Upstream\<close> holds what
  its calls answer for one upstream server: the error (or none) of creating, starting,
  initializing and closing it, and the page that each list operation answers for a
  request cursor.
\<close>

record Upstream =
  libNew :: "string option"
  libStart :: "string option"
  libInitialize :: "string option"
  libClose :: "string option"
  libListTools :: "string \<Rightarrow> string + ListToolsResult"
  libListPrompts :: "string \<Rightarrow> string + ListPromptsResult"
  libListResources :: "string \<Rightarrow> string + ListResourcesResult"
  libListResourceTemplates :: "string \<Rightarrow> string + ListResourceTemplatesResult"

datatype ClientKind = StdioClient | SSEClient | StreamableClient

text \<open>
  The three client structs have the same fields: \<open>name\<close>, \<open>config\<close>, \<open>client\<close> (here
  whether the pointer is non-nil) and \<open>connected\<close>.
\<close>

record MCPClient =
  kind :: ClientKind
  cname :: string
  config :: ServerConfig
  hasClient :: bool
  connected :: bool
  upstream :: Upstream

definition GetName :: "MCPClient \<Rightarrow> string" where
  "GetName c = cname c"

definition GetType :: "MCPClient \<Rightarrow> string" where
  "GetType c = (case kind c of StdioClient \<Rightarrow> ClientTypeStdio | SSEClient \<Rightarrow> ClientTypeSSE
                | StreamableClient \<Rightarrow> ClientTypeStreamable)"

definition IsConnected :: "MCPClient \<Rightarrow> bool" where
  "IsConnected c = connected c"

definition ListTools :: "MCPClient \<Rightarrow> string \<Rightarrow> string + ListToolsResult" where
  "ListTools c cursor =
     (if \<not> connected c \<or> \<not> hasClient c then Inl ''client not connected''
      else libListTools (upstream c) cursor)"

definition ListPrompts :: "MCPClient \<Rightarrow> string \<Rightarrow> string + ListPromptsResult" where
  "ListPrompts c cursor =
     (if \<not> connected c \<or> \<not> hasClient c then Inl ''client not connected''
      else libListPrompts (upstream c) cursor)"

definition ListResources :: "MCPClient \<Rightarrow> string \<Rightarrow> string + ListResourcesResult" where
  "ListResources c cursor =
     (if \<not> connected c \<or> \<not> hasClient c then Inl ''client not connected''
      else libListResources (upstream c) cursor)"

definition ListResourceTemplates :: "MCPClient \<Rightarrow> string \<Rightarrow> string + ListResourceTemplatesResult" where
  "ListResourceTemplates c cursor =
     (if \<not> connected c \<or> \<not> hasClient c then Inl ''client not connected''
      else libListResourceTemplates (upstream c) cursor)"

section \<open>The proxy server (internal/server/proxy.go)\<close>

text \<open>
  The mcp-go server behind \<open>ps.mcpServer\<close> is an external library; it is modelled by
  the items handed to \<open>AddTool\<close>, \<open>AddPrompt\<close>, \<open>AddResource\<close> and
  \<open>AddResourceTemplate\<close>, one entry per call, in call order.
\<close>

record MCPServer =
  tools :: "Tool list"
  prompts :: "Prompt list"
  resources :: "Resource list"
  resourceTemplates :: "ResourceTemplate list"

definition AddTool :: "MCPServer \<Rightarrow> Tool \<Rightarrow> MCPServer" where
  "AddTool s t = s\<lparr>tools := tools s @ [t]\<rparr>"

definition AddPrompt :: "MCPServer \<Rightarrow> Prompt \<Rightarrow> MCPServer" where
  "AddPrompt s p = s\<lparr>prompts := prompts s @ [p]\<rparr>"

definition AddResource :: "MCPServer \<Rightarrow> Resource \<Rightarrow> MCPServer" where
  "AddResource s r = s\<lparr>resources := resources s @ [r]\<rparr>"

definition AddResourceTemplate :: "MCPServer \<Rightarrow> ResourceTemplate \<Rightarrow> MCPServer" where
  "AddResourceTemplate s r = s\<lparr>resourceTemplates := resourceTemplates s @ [r]\<rparr>"

text \<open>
  Every call of a list operation of the client is recorded with its request cursor:
  the functions below return the calls they issued, in order.
\<close>

datatype Call =
  ListToolsCall string
  | ListPromptsCall string
  | ListResourcesCall string
  | ListResourceTemplatesCall string

record ProxyServer =
  name :: string
  proxyConfig :: ProxyConfig
  serverConfig :: ServerConfig
  mcpServer :: MCPServer
  client :: "MCPClient option"

definition createToolFilter :: "(string \<Rightarrow> string) \<Rightarrow> ProxyServer \<Rightarrow> string \<Rightarrow> bool" where
  "createToolFilter uni ps =
     (case Options (serverConfig ps) of
        None \<Rightarrow> (\<lambda>toolName. True)
      | Some opts \<Rightarrow>
          (case ToolFilter opts of
             None \<Rightarrow> (\<lambda>toolName. True)
           | Some tf \<Rightarrow>
               if length (List tf) > 0 then
                 (let filterSet = fold (\<lambda>toolName s. insert toolName s) (List tf) {};
                      mode = ToLower uni (Mode tf)
                  in if mode = ToolFilterModeAllow then (\<lambda>toolName. toolName \<in> filterSet)
                     else if mode = ToolFilterModeBlock then (\<lambda>toolName. toolName \<notin> filterSet)
                     else (\<lambda>toolName. True))
               else (\<lambda>toolName. True)))"

text \<open>
  The loops of \<open>addTools\<close>, \<open>addPrompts\<close>, \<open>addResources\<close> and
  \<open>addResourceTemplates\<close> end only when the upstream answers an error, an empty page or
  an empty next cursor, so they are partial: \<open>None\<close> is the loop that never returns.
  The result is the returned error, the server after the registrations, and the calls.
\<close>

partial_function (option) addTools_loop ::
  "(string \<Rightarrow> bool) \<Rightarrow> MCPClient \<Rightarrow> string \<Rightarrow> MCPServer \<Rightarrow> Call list
     \<Rightarrow> (string option \<times> MCPServer \<times> Call list) option" where
  "addTools_loop filterFunc cl cursor srv calls =
     (case ListTools cl cursor of
        Inl err \<Rightarrow> Some (Some err, srv, calls @ [ListToolsCall cursor])
      | Inr res \<Rightarrow>
          if length (Tools res) = 0 then Some (None, srv, calls @ [ListToolsCall cursor])
          else
            let srv' = fold (\<lambda>tool s. if filterFunc (Name tool) then AddTool s tool else s)
                         (Tools res) srv
            in if NextCursor res = '''' then Some (None, srv', calls @ [ListToolsCall cursor])
               else addTools_loop filterFunc cl (NextCursor res) srv'
                      (calls @ [ListToolsCall cursor]))"

definition addTools ::
  "(string \<Rightarrow> string) \<Rightarrow> ProxyServer \<Rightarrow> MCPClient \<Rightarrow> (string option \<times> ProxyServer \<times> Call list) option" where
  "addTools uni ps cl =
     (case addTools_loop (createToolFilter uni ps) cl '''' (mcpServer ps) [] of
        None \<Rightarrow> None
      | Some (err, srv, calls) \<Rightarrow> Some (err, ps\<lparr>mcpServer := srv\<rparr>, calls))"

partial_function (option) addPrompts_loop ::
  "MCPClient \<Rightarrow> string \<Rightarrow> MCPServer \<Rightarrow> Call list
     \<Rightarrow> (string option \<times> MCPServer \<times> Call list) option" where
  "addPrompts_loop cl cursor srv calls =
     (case ListPrompts cl cursor of
        Inl err \<Rightarrow> Some (Some err, srv, calls @ [ListPromptsCall cursor])
      | Inr res \<Rightarrow>
          if length (Prompts res) = 0 then Some (None, srv, calls @ [ListPromptsCall cursor])
          else
            let srv' = fold (\<lambda>prompt s. AddPrompt s prompt) (Prompts res) srv
            in if PromptsNextCursor res = '''' then Some (None, srv', calls @ [ListPromptsCall cursor])
               else addPrompts_loop cl (PromptsNextCursor res) srv'
                      (calls @ [ListPromptsCall cursor]))"

definition addPrompts ::
  "ProxyServer \<Rightarrow> MCPClient \<Rightarrow> (string option \<times> ProxyServer \<times> Call list) option" where
  "addPrompts ps cl =
     (case addPrompts_loop cl '''' (mcpServer ps) [] of
        None \<Rightarrow> None
      | Some (err, srv, calls) \<Rightarrow> Some (err, ps\<lparr>mcpServer := srv\<rparr>, calls))"

partial_function (option) addResources_loop ::
  "MCPClient \<Rightarrow> string \<Rightarrow> MCPServer \<Rightarrow> Call list
     \<Rightarrow> (string option \<times> MCPServer \<times> Call list) option" where
  "addResources_loop cl cursor srv calls =
     (case ListResources cl cursor of
        Inl err \<Rightarrow> Some (Some err, srv, calls @ [ListResourcesCall cursor])
      | Inr res \<Rightarrow>
          if length (Resources res) = 0 then Some (None, srv, calls @ [ListResourcesCall cursor])
          else
            let srv' = fold (\<lambda>resource s. AddResource s resource) (Resources res) srv
            in if ResourcesNextCursor res = '''' then
                 Some (None, srv', calls @ [ListResourcesCall cursor])
               else addResources_loop cl (ResourcesNextCursor res) srv'
                      (calls @ [ListResourcesCall cursor]))"

definition addResources ::
  "ProxyServer \<Rightarrow> MCPClient \<Rightarrow> (string option \<times> ProxyServer \<times> Call list) option" where
  "addResources ps cl =
     (case addResources_loop cl '''' (mcpServer ps) [] of
        None \<Rightarrow> None
      | Some (err, srv, calls) \<Rightarrow> Some (err, ps\<lparr>mcpServer := srv\<rparr>, calls))"

partial_function (option) addResourceTemplates_loop ::
  "MCPClient \<Rightarrow> string \<Rightarrow> MCPServer \<Rightarrow> Call list
     \<Rightarrow> (string option \<times> MCPServer \<times> Call list) option" where
  "addResourceTemplates_loop cl cursor srv calls =
     (case ListResourceTemplates cl cursor of
        Inl err \<Rightarrow> Some (Some err, srv, calls @ [ListResourceTemplatesCall cursor])
      | Inr res \<Rightarrow>
          if length (ResourceTemplates res) = 0 then
            Some (None, srv, calls @ [ListResourceTemplatesCall cursor])
          else
            let srv' = fold (\<lambda>resourceTemplate s. AddResourceTemplate s resourceTemplate)
                         (ResourceTemplates res) srv
            in if TemplatesNextCursor res = '''' then
                 Some (None, srv', calls @ [ListResourceTemplatesCall cursor])
               else addResourceTemplates_loop cl (TemplatesNextCursor res) srv'
                      (calls @ [ListResourceTemplatesCall cursor]))"

definition addResourceTemplates ::
  "ProxyServer \<Rightarrow> MCPClient \<Rightarrow> (string option \<times> ProxyServer \<times> Call list) option" where
  "addResourceTemplates ps cl =
     (case addResourceTemplates_loop cl '''' (mcpServer ps) [] of
        None \<Rightarrow> None
      | Some (err, srv, calls) \<Rightarrow> Some (err, ps\<lparr>mcpServer := srv\<rparr>, calls))"

text \<open>
  \<open>addClientResources\<close>: a failure of \<open>addTools\<close> is returned; the errors of the other
  three are logged and dropped.
\<close>

definition addClientResources ::
  "(string \<Rightarrow> string) \<Rightarrow> ProxyServer \<Rightarrow> MCPClient \<Rightarrow> (string option \<times> ProxyServer \<times> Call list) option" where
  "addClientResources uni ps cl =
     (case addTools uni ps cl of
        None \<Rightarrow> None
      | Some (Some err, ps1, calls1) \<Rightarrow> Some (Some (''failed to add tools: '' @ err), ps1, calls1)
      | Some (None, ps1, calls1) \<Rightarrow>
          (case addPrompts ps1 cl of
             None \<Rightarrow> None
           | Some (err2, ps2, calls2) \<Rightarrow>
               (case addResources ps2 cl of
                  None \<Rightarrow> None
                | Some (err3, ps3, calls3) \<Rightarrow>
                    (case addResourceTemplates ps3 cl of
                       None \<Rightarrow> None
                     | Some (err4, ps4, calls4) \<Rightarrow>
                         Some (None, ps4, calls1 @ calls2 @ calls3 @ calls4)))))"

definition RegisterClient ::
  "(string \<Rightarrow> string) \<Rightarrow> ProxyServer \<Rightarrow> MCPClient \<Rightarrow> (string option \<times> ProxyServer \<times> Call list) option" where
  "RegisterClient uni ps cl =
     (if client ps \<noteq> None then
        Some (Some (''client already registered for server '' @ name ps), ps, [])
      else
        (case addClientResources uni (ps\<lparr>client := Some cl\<rparr>) cl of
           None \<Rightarrow> None
         | Some (Some err, ps', calls) \<Rightarrow>
             Some (Some (''failed to add client resources: '' @ err), ps', calls)
         | Some (None, ps', calls) \<Rightarrow> Some (None, ps', calls)))"

definition UnregisterClient :: "ProxyServer \<Rightarrow> string option \<times> ProxyServer" where
  "UnregisterClient ps =
     (if client ps = None then (Some (''no client registered for server '' @ name ps), ps)
      else (None, ps\<lparr>client := None\<rparr>))"

definition GetClient :: "ProxyServer \<Rightarrow> MCPClient option" where
  "GetClient ps = client ps"

definition NewProxyServer :: "string \<Rightarrow> ProxyConfig \<Rightarrow> ServerConfig \<Rightarrow> string + ProxyServer" where
  "NewProxyServer nm pc sc =
     (if Type pc = TransportTypeSSE \<or> Type pc = TransportTypeHTTP then
        Inr \<lparr>name = nm, proxyConfig = pc, serverConfig = sc,
             mcpServer = \<lparr>tools = [], prompts = [], resources = [], resourceTemplates = []\<rparr>,
             client = None\<rparr>
      else Inl (''unsupported server type: '' @ Type pc))"

subsection \<open>Catalogs served in pages\<close>

text \<open>
  \<open>servesPages lt c pages\<close>: asked with cursor \<open>c\<close>, the list operation \<open>lt\<close> answers
  the first page; every page but the last carries a non-empty next cursor, under which
  the following page is served; the last page carries the empty cursor.
  \<open>fetched pages\<close> are the pages before the first page without items, and
  \<open>requestCursors c pages\<close> the cursors of the requests up to and including that page.
\<close>

fun servesPages :: "(string \<Rightarrow> string + ListToolsResult) \<Rightarrow> string \<Rightarrow> ListToolsResult list \<Rightarrow> bool" where
  "servesPages lt c [] = False"
| "servesPages lt c [p] = (lt c = Inr p \<and> NextCursor p = '''')"
| "servesPages lt c (p # q # ps) =
     (lt c = Inr p \<and> NextCursor p \<noteq> '''' \<and> servesPages lt (NextCursor p) (q # ps))"

definition fetched :: "ListToolsResult list \<Rightarrow> ListToolsResult list" where
  "fetched pages = takeWhile (\<lambda>p. Tools p \<noteq> []) pages"

definition requestCursors :: "string \<Rightarrow> ListToolsResult list \<Rightarrow> string list" where
  "requestCursors c pages = take (Suc (length (fetched pages))) (c # map NextCursor (butlast pages))"

definition registeredNames :: "ProxyServer \<Rightarrow> string set" where
  "registeredNames ps = set (map Name (tools (mcpServer ps)))"

definition servedNames :: "ListToolsResult list \<Rightarrow> string set" where
  "servedNames pages = set (map Name (concat (map Tools (fetched pages))))"

subsection \<open>A concrete upstream: five tools on pages of 2, 2, 1 and 0 items\<close>

definition mkTool :: "string \<Rightarrow> Tool" where
  "mkTool n = \<lparr>Name = n, Description = ''''\<rparr>"

definition demoPages :: "ListToolsResult list" where
  "demoPages =
     [\<lparr>Tools = [mkTool ''t1'', mkTool ''t2''], NextCursor = ''c1''\<rparr>,
      \<lparr>Tools = [mkTool ''t3'', mkTool ''t4''], NextCursor = ''c2''\<rparr>,
      \<lparr>Tools = [mkTool ''t5''], NextCursor = ''c3''\<rparr>,
      \<lparr>Tools = [], NextCursor = ''''\<rparr>]"

definition demoListTools :: "string \<Rightarrow> string + ListToolsResult" where
  "demoListTools cursor =
     (if cursor = '''' then Inr (demoPages ! 0)
      else if cursor = ''c1'' then Inr (demoPages ! 1)
      else if cursor = ''c2'' then Inr (demoPages ! 2)
      else if cursor = ''c3'' then Inr (demoPages ! 3)
      else Inl ''invalid cursor'')"

definition demoUpstream :: Upstream where
  "demoUpstream =
     \<lparr>libNew = None, libStart = None, libInitialize = None, libClose = None,
      libListTools = demoListTools,
      libListPrompts = (\<lambda>c. Inr \<lparr>Prompts = [], PromptsNextCursor = ''''\<rparr>),
      libListResources = (\<lambda>c. Inl ''resources not supported''),
      libListResourceTemplates = (\<lambda>c. Inr \<lparr>ResourceTemplates = [], TemplatesNextCursor = ''''\<rparr>)\<rparr>"

definition demoServerConfig :: "OptionsConfig option \<Rightarrow> ServerConfig" where
  "demoServerConfig opts =
     \<lparr>Transport = ''stdio'', Command = ''npx'', Args = [], Env = [], URL = '''', Headers = [],
      Timeout = 0, Options = opts\<rparr>"

definition demoClient :: "bool \<Rightarrow> MCPClient" where
  "demoClient conn =
     \<lparr>kind = StdioClient, cname = ''github'', config = demoServerConfig None,
      hasClient = conn, connected = conn, upstream = demoUpstream\<rparr>"

definition demoProxyConfig :: ProxyConfig where
  "demoProxyConfig =
     \<lparr>BaseURL = ''http://localhost/api'', Addr = '':9090'', ProxyName = ''MCP Proxy'',
      Version = ''2.0.0'', Type = ''sse'', ProxyOptions = None\<rparr>"

definition demoProxy :: "OptionsConfig option \<Rightarrow> ProxyServer" where
  "demoProxy opts =
     \<lparr>name = ''github'', proxyConfig = demoProxyConfig, serverConfig = demoServerConfig opts,
      mcpServer = \<lparr>tools = [], prompts = [], resources = [], resourceTemplates = []\<rparr>,
      client = None\<rparr>"

definition filterConfig :: "string \<Rightarrow> string list \<Rightarrow> OptionsConfig option" where
  "filterConfig mode names =
     Some \<lparr>PanicIfInvalid = None, LogEnabled = None, AuthTokens = None,
           ToolFilter = Some \<lparr>Mode = mode, List = names\<rparr>\<rparr>"

section \<open>Go standard library: strings.HasPrefix, TrimPrefix, TrimSpace\<close>

definition HasPrefix :: "string \<Rightarrow> string \<Rightarrow> bool" where
  "HasPrefix s pre = (length s \<ge> length pre \<and> take (length pre) s = pre)"

definition HasSuffix :: "string \<Rightarrow> string \<Rightarrow> bool" where
  "HasSuffix s suf = (length s \<ge> length suf \<and> drop (length s - length suf) s = suf)"

definition TrimPrefix :: "string \<Rightarrow> string \<Rightarrow> string" where
  "TrimPrefix s pre = (if HasPrefix s pre then drop (length pre) s else s)"

text \<open>
  \<open>strings.TrimSpace\<close> removes leading and trailing white space as defined by Unicode
  (\<open>unicode.IsSpace\<close>): U+0009..U+000D, U+0020, U+0085, U+00A0, U+1680, U+2000..U+200A,
  U+2028, U+2029, U+202F, U+205F and U+3000. On the bytes of a string these are the
  UTF-8 encodings listed in \<open>spaceRunes\<close>; a byte sequence that is not such an encoding
  decodes to another rune (or to the error rune) and ends the trimming.
\<close>

definition spaceRunes :: "string list" where
  "spaceRunes =
     [[CHR 0x09], [CHR 0x0A], [CHR 0x0B], [CHR 0x0C], [CHR 0x0D], [CHR 0x20],
      [CHR 0xC2, CHR 0x85], [CHR 0xC2, CHR 0xA0],
      [CHR 0xE1, CHR 0x9A, CHR 0x80],
      [CHR 0xE2, CHR 0x80, CHR 0x80], [CHR 0xE2, CHR 0x80, CHR 0x81],
      [CHR 0xE2, CHR 0x80, CHR 0x82], [CHR 0xE2, CHR 0x80, CHR 0x83],
      [CHR 0xE2, CHR 0x80, CHR 0x84], [CHR 0xE2, CHR 0x80, CHR 0x85],
      [CHR 0xE2, CHR 0x80, CHR 0x86], [CHR 0xE2, CHR 0x80, CHR 0x87],
      [CHR 0xE2, CHR 0x80, CHR 0x88], [CHR 0xE2, CHR 0x80, CHR 0x89],
      [CHR 0xE2, CHR 0x80, CHR 0x8A],
      [CHR 0xE2, CHR 0x80, CHR 0xA8], [CHR 0xE2, CHR 0x80, CHR 0xA9],
      [CHR 0xE2, CHR 0x80, CHR 0xAF], [CHR 0xE2, CHR 0x81, CHR 0x9F],
      [CHR 0xE3, CHR 0x80, CHR 0x80]]"

function stripLeading :: "string list \<Rightarrow> string \<Rightarrow> string" where
  "stripLeading pats s =
     (case find (\<lambda>p. p \<noteq> [] \<and> HasPrefix s p) pats of
        None \<Rightarrow> s
      | Some p \<Rightarrow> stripLeading pats (drop (length p) s))"
  by pat_completeness auto
termination
proof (relation "measure (\<lambda>(pats, s). length s)")
  show "wf (measure (\<lambda>(pats :: string list, s :: string). length s))" by simp
next
  fix pats :: "string list" and s p :: string
  assume "find (\<lambda>p. p \<noteq> [] \<and> HasPrefix s p) pats = Some p"
  then have "p \<noteq> [] \<and> HasPrefix s p" by (auto simp add: find_Some_iff)
  then show "((pats, drop (length p) s), (pats, s)) \<in> measure (\<lambda>(pats, s). length s)"
    by (cases p; cases s) (auto simp add: HasPrefix_def)
qed

definition TrimSpace :: "string \<Rightarrow> string" where
  "TrimSpace s = rev (stripLeading (map rev spaceRunes) (rev (stripLeading spaceRunes s)))"

section \<open>Middleware (internal/middleware, internal/app)\<close>

text \<open>
  Of net/http the model keeps the request's method, path and header fields, and of the
  response writer the status code (set by the first \<open>WriteHeader\<close>) and the body written.
  A handler is a function from the request and the writer to the writer after the call.
  \<open>Header.Get\<close> answers the first value stored under the key, or the empty string;
  the key \<open>Authorization\<close> is in canonical form already. \<open>http.Error\<close> writes the status
  code and the message followed by a newline.
\<close>

record Request =
  Method :: string
  URLPath :: string
  Header :: "(string \<times> string list) list"

record ResponseWriter =
  StatusCode :: "nat option"
  Body :: string

type_synonym Handler = "Request \<Rightarrow> ResponseWriter \<Rightarrow> ResponseWriter"

definition Header_Get :: "(string \<times> string list) list \<Rightarrow> string \<Rightarrow> string" where
  "Header_Get h key = (case map_of h key of None \<Rightarrow> '''' | Some [] \<Rightarrow> '''' | Some (v # vs) \<Rightarrow> v)"

definition StatusUnauthorized :: nat where "StatusUnauthorized = 401"

definition http_Error :: "ResponseWriter \<Rightarrow> string \<Rightarrow> nat \<Rightarrow> ResponseWriter" where
  "http_Error w msg code =
     w\<lparr>StatusCode := (case StatusCode w of None \<Rightarrow> Some code | Some c \<Rightarrow> Some c),
       Body := Body w @ msg @ [CHR 0x0A]\<rparr>"

text \<open>The auth middleware (package auth): \<open>New\<close> and \<open>Handle\<close>.\<close>

record auth_Middleware =
  tokens :: "string set"

definition auth_New :: "string list \<Rightarrow> auth_Middleware" where
  "auth_New toks = \<lparr>tokens = fold (\<lambda>token tokenSet. insert token tokenSet) toks {}\<rparr>"

definition auth_Handle :: "auth_Middleware \<Rightarrow> Handler \<Rightarrow> Handler" where
  "auth_Handle m next = (\<lambda>r w.
     if tokens m = {} then next r w
     else
       let token = Header_Get (Header r) ''Authorization'';
           token = TrimSpace (TrimPrefix token ''Bearer '')
       in if token = '''' then http_Error w ''Unauthorized'' StatusUnauthorized
          else if token \<notin> tokens m then http_Error w ''Unauthorized'' StatusUnauthorized
          else next r w)"

datatype Middleware =
  RecoveryMiddleware string
  | LoggerMiddleware string
  | AuthMiddleware auth_Middleware

fun Middleware_GetName :: "Middleware \<Rightarrow> string" where
  "Middleware_GetName (RecoveryMiddleware n) = ''recovery''"
| "Middleware_GetName (LoggerMiddleware p) = ''logger''"
| "Middleware_GetName (AuthMiddleware m) = ''auth''"

text \<open>\<open>Application.createMiddlewares\<close>; the length of a nil slice is 0.\<close>

definition createMiddlewares :: "string \<Rightarrow> ServerConfig \<Rightarrow> Middleware list" where
  "createMiddlewares clientName cfg =
     (let middlewares = [RecoveryMiddleware clientName];
          middlewares =
            (case Options cfg of
               Some opts \<Rightarrow>
                 (case LogEnabled opts of
                    Some True \<Rightarrow> middlewares @ [LoggerMiddleware clientName]
                  | _ \<Rightarrow> middlewares)
             | None \<Rightarrow> middlewares);
          middlewares =
            (case Options cfg of
               Some opts \<Rightarrow>
                 (case AuthTokens opts of
                    Some toks \<Rightarrow>
                      if length toks > 0 then middlewares @ [AuthMiddleware (auth_New toks)]
                      else middlewares
                  | None \<Rightarrow> middlewares)
             | None \<Rightarrow> middlewares)
     in middlewares)"

subsection \<open>Concrete requests\<close>

definition okHandler :: Handler where
  "okHandler r w = w\<lparr>StatusCode := Some 200, Body := Body w @ ''ok''\<rparr>"

definition emptyWriter :: ResponseWriter where
  "emptyWriter = \<lparr>StatusCode = None, Body = ''''\<rparr>"

definition authRequest :: "string list \<Rightarrow> Request" where
  "authRequest vs =
     \<lparr>Method = ''GET'', URLPath = ''/api/github/sse'', Header = [(''Authorization'', vs)]\<rparr>"

definition tokenConfig :: "string list option \<Rightarrow> OptionsConfig option" where
  "tokenConfig toks =
     Some \<lparr>PanicIfInvalid = None, LogEnabled = Some True, AuthTokens = toks, ToolFilter = None\<rparr>"

section \<open>The configuration provider (internal/config/provider.go)\<close>

definition emptyOptions :: OptionsConfig where
  "emptyOptions = \<lparr>PanicIfInvalid = None, LogEnabled = None, AuthTokens = None, ToolFilter = None\<rparr>"

definition inheritProxyDefaults :: "OptionsConfig \<Rightarrow> OptionsConfig \<Rightarrow> OptionsConfig" where
  "inheritProxyDefaults serverOptions proxyOptions =
     (let serverOptions =
            (if AuthTokens serverOptions = None
             then serverOptions\<lparr>AuthTokens := AuthTokens proxyOptions\<rparr> else serverOptions);
          serverOptions =
            (if PanicIfInvalid serverOptions = None
             then serverOptions\<lparr>PanicIfInvalid := PanicIfInvalid proxyOptions\<rparr> else serverOptions);
          serverOptions =
            (if LogEnabled serverOptions = None
             then serverOptions\<lparr>LogEnabled := LogEnabled proxyOptions\<rparr> else serverOptions)
      in serverOptions)"

definition detectTransportType :: "ServerConfig \<Rightarrow> string" where
  "detectTransportType cfg =
     (if Command cfg \<noteq> '''' then ClientTypeStdio
      else if URL cfg \<noteq> '''' then
        (if Transport cfg = ClientTypeStreamable then ClientTypeStreamable else ClientTypeSSE)
      else ClientTypeStdio)"

text \<open>
  \<open>setDefaults\<close>: the body of the loop over the servers is \<open>setServerDefaults\<close>; each
  entry of the map is rewritten on its own, so the loop is a \<open>map\<close> over the entries.
\<close>

definition setServerDefaults :: "OptionsConfig \<Rightarrow> ServerConfig \<Rightarrow> ServerConfig" where
  "setServerDefaults proxyOptions srvConfig =
     (let serverOptions = (case Options srvConfig of None \<Rightarrow> emptyOptions | Some opts \<Rightarrow> opts);
          srvConfig = srvConfig\<lparr>Options := Some (inheritProxyDefaults serverOptions proxyOptions)\<rparr>;
          srvConfig =
            (if Transport srvConfig = ''''
             then srvConfig\<lparr>Transport := detectTransportType srvConfig\<rparr> else srvConfig)
      in srvConfig)"

definition setDefaults :: "Config \<Rightarrow> Config" where
  "setDefaults cfg =
     (let proxy = Proxy cfg;
          proxy = (if Type proxy = '''' then proxy\<lparr>Type := TransportTypeSSE\<rparr> else proxy);
          proxyOptions = (case ProxyOptions proxy of None \<Rightarrow> emptyOptions | Some opts \<Rightarrow> opts);
          proxy = proxy\<lparr>ProxyOptions := Some proxyOptions\<rparr>
      in \<lparr>Proxy = proxy,
          Servers = map (\<lambda>(nm, srvConfig). (nm, setServerDefaults proxyOptions srvConfig))
                      (Servers cfg)\<rparr>)"

text \<open>
  \<open>Load\<close> reads a file or URL and parses JSON; its input here is the outcome of those
  two steps: a read error, a parse error, or the parsed configuration.
\<close>

datatype LoadInput = ReadError string | ParseError string | Parsed Config

fun Load :: "LoadInput \<Rightarrow> string + Config" where
  "Load (ReadError err) = Inl (''failed to load config: '' @ err)"
| "Load (ParseError err) = Inl (''failed to parse config: '' @ err)"
| "Load (Parsed cfg) = Inr (setDefaults cfg)"

definition contains :: "string list \<Rightarrow> string \<Rightarrow> bool" where
  "contains slice item = list_ex (\<lambda>s. s = item) slice"

definition validateProxyConfig :: "ProxyConfig \<Rightarrow> string option" where
  "validateProxyConfig cfg =
     (if ProxyName cfg = '''' then Some ''name is required''
      else if Addr cfg = '''' then Some ''addr is required''
      else if BaseURL cfg = '''' then Some ''baseURL is required''
      else if Version cfg = '''' then Some ''version is required''
      else if Type cfg \<noteq> '''' \<and> \<not> contains [TransportTypeSSE, TransportTypeHTTP] (Type cfg)
        then Some (''unsupported transport type: '' @ Type cfg)
      else None)"

definition validateToolFilter :: "(string \<Rightarrow> string) \<Rightarrow> ToolFilterConfig \<Rightarrow> string option" where
  "validateToolFilter uni flt =
     (if length (List flt) > 0 then
        (let mode = ToLower uni (Mode flt)
         in if mode \<noteq> ToolFilterModeAllow \<and> mode \<noteq> ToolFilterModeBlock
            then Some (''invalid filter mode: '' @ Mode flt @ '', must be '' @ [CHR 0x27] @ ''allow''
                       @ [CHR 0x27] @ '' or '' @ [CHR 0x27] @ ''block'' @ [CHR 0x27])
            else None)
      else None)"

definition validateServerConfig :: "(string \<Rightarrow> string) \<Rightarrow> string \<Rightarrow> ServerConfig \<Rightarrow> string option" where
  "validateServerConfig uni nm cfg =
     (if nm = '''' then Some ''server name is required''
      else if Transport cfg \<noteq> '''' \<and>
              \<not> contains [ClientTypeStdio, ClientTypeSSE, ClientTypeStreamable] (Transport cfg)
        then Some (''unsupported transport type: '' @ Transport cfg)
      else if Transport cfg = ClientTypeStdio \<and> Command cfg = ''''
        then Some ''command is required for stdio transport''
      else if (Transport cfg = ClientTypeSSE \<or> Transport cfg = ClientTypeStreamable) \<and> URL cfg = ''''
        then Some ''url is required for sse/streamable transport''
      else
        (case Options cfg of
           None \<Rightarrow> None
         | Some opts \<Rightarrow>
             (case ToolFilter opts of
                None \<Rightarrow> None
              | Some flt \<Rightarrow>
                  (case validateToolFilter uni flt of
                     Some err \<Rightarrow> Some (''invalid tool filter: '' @ err)
                   | None \<Rightarrow> None))))"

fun validateServers :: "(string \<Rightarrow> string) \<Rightarrow> (string \<times> ServerConfig) list \<Rightarrow> string option" where
  "validateServers uni [] = None"
| "validateServers uni ((nm, srvConfig) # rest) =
     (case validateServerConfig uni nm srvConfig of
        Some err \<Rightarrow> Some (''invalid server config for '' @ nm @ '': '' @ err)
      | None \<Rightarrow> validateServers uni rest)"

definition Validate :: "(string \<Rightarrow> string) \<Rightarrow> Config option \<Rightarrow> string option" where
  "Validate uni cfgPtr =
     (case cfgPtr of
        None \<Rightarrow> Some ''config is nil''
      | Some cfg \<Rightarrow>
          (case validateProxyConfig (Proxy cfg) of
             Some err \<Rightarrow> Some (''invalid proxy config: '' @ err)
           | None \<Rightarrow> validateServers uni (Servers cfg)))"

subsection \<open>A concrete configuration\<close>

definition demoProxyOptions :: "bool \<Rightarrow> OptionsConfig" where
  "demoProxyOptions panicIfInvalid =
     \<lparr>PanicIfInvalid = Some panicIfInvalid, LogEnabled = Some True,
      AuthTokens = Some [''default-token-123''],
      ToolFilter = Some \<lparr>Mode = ''block'', List = [''create_or_update_file'']\<rparr>\<rparr>"

definition weatherServerConfig :: ServerConfig where
  "weatherServerConfig =
     \<lparr>Transport = '''', Command = '''', Args = [], Env = [],
      URL = ''https://weather.mcp.example.com/sse'', Headers = [], Timeout = 0,
      Options = Some \<lparr>PanicIfInvalid = None, LogEnabled = Some False, AuthTokens = None,
                     ToolFilter = None\<rparr>\<rparr>"

definition demoConfig :: "bool \<Rightarrow> Config" where
  "demoConfig panicIfInvalid =
     \<lparr>Proxy = demoProxyConfig\<lparr>ProxyOptions := Some (demoProxyOptions panicIfInvalid)\<rparr>,
      Servers = [(''github'', demoServerConfig None), (''weather'', weatherServerConfig)]\<rparr>"

definition orEmpty :: "OptionsConfig option \<Rightarrow> OptionsConfig" where
  "orEmpty opts = (case opts of None \<Rightarrow> emptyOptions | Some x \<Rightarrow> x)"

section \<open>Go standard library: path.Clean and path.Join\<close>

text \<open>
  \<open>path.Clean\<close> is purely lexical: it splits the path at the slashes, drops empty
  elements and \<open>.\<close> elements, lets a \<open>..\<close> element remove the element before it (at the
  root it is dropped, at the start of a relative path it is kept), and joins what is
  left with single slashes; the empty result is \<open>.\<close>. Here the elements are pushed on
  a stack by \<open>cleanStep\<close>. \<open>path.Join\<close> joins its elements with slashes, ignoring
  leading empty ones, and cleans the result; if all elements are empty it is empty.
\<close>

fun splitSlash :: "string \<Rightarrow> string list" where
  "splitSlash [] = [[]]"
| "splitSlash (c # cs) =
     (if c = CHR ''/'' then [] # splitSlash cs
      else (case splitSlash cs of [] \<Rightarrow> [[c]] | seg # segs \<Rightarrow> (c # seg) # segs))"

fun joinSlash :: "string list \<Rightarrow> string" where
  "joinSlash [] = ''''"
| "joinSlash [e] = e"
| "joinSlash (e # es) = e @ ''/'' @ joinSlash es"

definition cleanStep :: "bool \<Rightarrow> string \<Rightarrow> string list \<Rightarrow> string list" where
  "cleanStep rooted e stack =
     (if e = '''' \<or> e = ''.'' then stack
      else if e = ''..'' then
        (if stack \<noteq> [] \<and> last stack \<noteq> ''..'' then butlast stack
         else if \<not> rooted then stack @ [''..'']
         else stack)
      else stack @ [e])"

definition path_Clean :: "string \<Rightarrow> string" where
  "path_Clean p =
     (if p = '''' then ''.''
      else
        let rooted = (hd p = CHR ''/'');
            out = (if rooted then ''/'' else '''') @ joinSlash (fold (cleanStep rooted) (splitSlash p) [])
        in if out = '''' then ''.'' else out)"

definition path_Join :: "string list \<Rightarrow> string" where
  "path_Join elems =
     (if sum_list (map length elems) = 0 then ''''
      else path_Clean
             (fold (\<lambda>e buf. if length buf > 0 \<or> e \<noteq> ''''
                             then (if length buf > 0 then buf @ ''/'' else buf) @ e
                             else buf)
                elems ''''))"

text \<open>
  The route prefix of \<open>Application.createHTTPServer\<close>, from the path of the parsed base
  URL and the name of the client.
\<close>

definition mcpRoute :: "string \<Rightarrow> string \<Rightarrow> string" where
  "mcpRoute basePath nm =
     (let route = path_Join [basePath, nm];
          route = (if \<not> HasPrefix route ''/'' then ''/'' @ route else route);
          route = (if \<not> HasSuffix route ''/'' then route @ ''/'' else route)
      in route)"

text \<open>
  A path without \<open>.\<close> and \<open>..\<close> elements, and a name that is one path element of
  that kind.
\<close>

definition noDotSegments :: "string \<Rightarrow> bool" where
  "noDotSegments p = list_all (\<lambda>s. s \<noteq> ''.'' \<and> s \<noteq> ''..'') (splitSlash p)"

definition plainName :: "string \<Rightarrow> bool" where
  "plainName nm = (nm \<noteq> '''' \<and> CHR ''/'' \<notin> set nm \<and> nm \<noteq> ''.'' \<and> nm \<noteq> ''..'')"

section \<open>The client life cycle (internal/client/stdio.go, sse.go, streamable.go)\<close>

text \<open>
  \<open>Connect\<close> and \<open>Disconnect\<close> return the error and the client after the call. The
  context and the client information passed to \<open>Connect\<close>, and the ping task started by
  the SSE and streamable clients, do not change the fields of the client and are left out.
\<close>

definition Connect :: "MCPClient \<Rightarrow> string option \<times> MCPClient" where
  "Connect c =
     (if connected c then (None, c)
      else
        (case kind c of
           StdioClient \<Rightarrow>
             (case libNew (upstream c) of
                Some err \<Rightarrow> (Some (''failed to create stdio client: '' @ err), c)
              | None \<Rightarrow>
                  (let c = c\<lparr>hasClient := True, connected := True\<rparr>
                   in case libInitialize (upstream c) of
                        Some err \<Rightarrow> (Some (''failed to initialize client: '' @ err), c\<lparr>connected := False\<rparr>)
                      | None \<Rightarrow> (None, c)))
         | SSEClient \<Rightarrow>
             (case libNew (upstream c) of
                Some err \<Rightarrow> (Some (''failed to create SSE client: '' @ err), c)
              | None \<Rightarrow>
                  (let c = c\<lparr>hasClient := True\<rparr>
                   in case libStart (upstream c) of
                        Some err \<Rightarrow> (Some (''failed to start SSE client: '' @ err), c)
                      | None \<Rightarrow>
                          (let c = c\<lparr>connected := True\<rparr>
                           in case libInitialize (upstream c) of
                                Some err \<Rightarrow>
                                  (Some (''failed to initialize client: '' @ err), c\<lparr>connected := False\<rparr>)
                              | None \<Rightarrow> (None, c))))
         | StreamableClient \<Rightarrow>
             (case libNew (upstream c) of
                Some err \<Rightarrow> (Some (''failed to create streamable client: '' @ err), c)
              | None \<Rightarrow>
                  (let c = c\<lparr>hasClient := True\<rparr>
                   in case libStart (upstream c) of
                        Some err \<Rightarrow> (Some (''failed to start streamable client: '' @ err), c)
                      | None \<Rightarrow>
                          (let c = c\<lparr>connected := True\<rparr>
                           in case libInitialize (upstream c) of
                                Some err \<Rightarrow>
                                  (Some (''failed to initialize client: '' @ err), c\<lparr>connected := False\<rparr>)
                              | None \<Rightarrow> (None, c))))))"

definition Disconnect :: "MCPClient \<Rightarrow> string option \<times> MCPClient" where
  "Disconnect c =
     (if \<not> connected c \<or> \<not> hasClient c then (None, c)
      else (libClose (upstream c), c\<lparr>connected := False, hasClient := False\<rparr>))"

text \<open>
  A client never has \<open>connected\<close> set without a library client: the constructors,
  \<open>Connect\<close> and \<open>Disconnect\<close> keep this.
\<close>

definition clientInvariant :: "MCPClient \<Rightarrow> bool" where
  "clientInvariant c = (connected c \<longrightarrow> hasClient c)"

section \<open>The client factory (internal/client/factory.go)\<close>

text \<open>The first argument is the upstream server the new client will talk to.\<close>

definition NewStdioClient :: "Upstream \<Rightarrow> string \<Rightarrow> ServerConfig \<Rightarrow> string + MCPClient" where
  "NewStdioClient up nm cfg =
     (if Command cfg = '''' then Inl ''command is required for stdio client''
      else Inr \<lparr>kind = StdioClient, cname = nm, config = cfg, hasClient = False, connected = False,
                upstream = up\<rparr>)"

definition NewSSEClient :: "Upstream \<Rightarrow> string \<Rightarrow> ServerConfig \<Rightarrow> string + MCPClient" where
  "NewSSEClient up nm cfg =
     (if URL cfg = '''' then Inl ''url is required for SSE client''
      else Inr \<lparr>kind = SSEClient, cname = nm, config = cfg, hasClient = False, connected = False,
                upstream = up\<rparr>)"

definition NewStreamableClient :: "Upstream \<Rightarrow> string \<Rightarrow> ServerConfig \<Rightarrow> string + MCPClient" where
  "NewStreamableClient up nm cfg =
     (if URL cfg = '''' then Inl ''url is required for streamable client''
      else Inr \<lparr>kind = StreamableClient, cname = nm, config = cfg, hasClient = False,
                connected = False, upstream = up\<rparr>)"

definition CreateClient :: "Upstream \<Rightarrow> string \<Rightarrow> ServerConfig \<Rightarrow> string + MCPClient" where
  "CreateClient up nm cfg =
     (if Transport cfg = ClientTypeStdio then NewStdioClient up nm cfg
      else if Transport cfg = ClientTypeSSE then NewSSEClient up nm cfg
      else if Transport cfg = ClientTypeStreamable then NewStreamableClient up nm cfg
      else Inl (''unsupported client type: '' @ Transport cfg))"

section \<open>The client manager (internal/client/manager.go)\<close>

text \<open>
  The manager's map from names to clients is an association list with distinct keys,
  holding the client objects the map points to. The mutex is left out.

  \<open>StartAll\<close> and \<open>StopAll\<close> start one goroutine per client and wait for all of them.
  Each goroutine works on its own client and then, on failure, sends to the error
  channel, so the goroutines influence each other only through the order in which
  their errors reach the channel. The argument \<open>order\<close> lists the client names in the
  order in which the goroutines complete; it is a permutation of the names in the map.
  The channel is a list with the capacity of the buffered channel: \<open>chanSend\<close> is the
  \<open>select\<close> with a \<open>default\<close> branch, which drops the error when the buffer is full.
\<close>

record Manager =
  clients :: "(string \<times> MCPClient) list"

definition NewManager :: Manager where
  "NewManager = \<lparr>clients = []\<rparr>"

definition AddClient :: "Manager \<Rightarrow> MCPClient \<Rightarrow> string option \<times> Manager" where
  "AddClient m cl =
     (let nm = GetName cl
      in if map_of (clients m) nm \<noteq> None then (Some (''client '' @ nm @ '' already exists''), m)
         else (None, m\<lparr>clients := clients m @ [(nm, cl)]\<rparr>))"

definition GetClients :: "Manager \<Rightarrow> (string \<times> MCPClient) list" where
  "GetClients m = clients m"

definition storeClient :: "Manager \<Rightarrow> string \<Rightarrow> MCPClient \<Rightarrow> Manager" where
  "storeClient m nm cl = m\<lparr>clients := map (\<lambda>(n, c). if n = nm then (n, cl) else (n, c)) (clients m)\<rparr>"

definition chanSend :: "nat \<Rightarrow> string list \<Rightarrow> string \<Rightarrow> string list" where
  "chanSend cap ch e = (if length ch < cap then ch @ [e] else ch)"

definition startTask :: "nat \<Rightarrow> string \<Rightarrow> Manager \<times> string list \<Rightarrow> Manager \<times> string list" where
  "startTask cap nm st =
     (case st of (m, errChan) \<Rightarrow>
        (case map_of (clients m) nm of
           None \<Rightarrow> (m, errChan)
         | Some cl \<Rightarrow>
             (case Connect cl of
                (Some err, cl') \<Rightarrow>
                  (storeClient m nm cl',
                   chanSend cap errChan (''failed to start client '' @ nm @ '': '' @ err))
              | (None, cl') \<Rightarrow> (storeClient m nm cl', errChan))))"

definition StartAll :: "Manager \<Rightarrow> string list \<Rightarrow> string option \<times> Manager" where
  "StartAll m order =
     (let snapshot = clients m
      in if length snapshot = 0 then (None, m)
         else
           (case fold (startTask (length snapshot)) order (m, []) of
              (m', errChan) \<Rightarrow>
                (let startErrors = errChan
                 in if length startErrors > 0 then (Some (hd startErrors), m') else (None, m'))))"

definition stopTask :: "nat \<Rightarrow> string \<Rightarrow> Manager \<times> string list \<Rightarrow> Manager \<times> string list" where
  "stopTask cap nm st =
     (case st of (m, errChan) \<Rightarrow>
        (case map_of (clients m) nm of
           None \<Rightarrow> (m, errChan)
         | Some cl \<Rightarrow>
             (case Disconnect cl of
                (Some err, cl') \<Rightarrow>
                  (storeClient m nm cl',
                   chanSend cap errChan (''failed to stop client '' @ nm @ '': '' @ err))
              | (None, cl') \<Rightarrow> (storeClient m nm cl', errChan))))"

definition StopAll :: "Manager \<Rightarrow> string list \<Rightarrow> string option \<times> Manager" where
  "StopAll m order =
     (let snapshot = clients m
      in if length snapshot = 0 then (None, m)
         else
           (case fold (stopTask (length snapshot)) order (m, []) of
              (m', errChan) \<Rightarrow> (None, m')))"

text \<open>
  The error that the goroutine of \<open>StartAll\<close> for the client \<open>nm\<close> sends, if any.
\<close>

definition startError :: "Manager \<Rightarrow> string \<Rightarrow> string option" where
  "startError m nm =
     (case map_of (clients m) nm of
        None \<Rightarrow> None
      | Some cl \<Rightarrow> map_option (\<lambda>err. ''failed to start client '' @ nm @ '': '' @ err) (fst (Connect cl)))"

text \<open>
  The two goroutine bodies have the same shape, \<open>goTask\<close>, with \<open>Connect\<close> or
  \<open>Disconnect\<close> for \<open>op\<close>; \<open>taskErrors\<close> are the errors sent by the goroutines of the
  names \<open>ns\<close>, and \<open>applyTo op S\<close> is the manager after \<open>op\<close> ran on the clients named
  in \<open>S\<close>. They serve the proofs about both loops.
\<close>

definition goTask ::
  "(MCPClient \<Rightarrow> string option \<times> MCPClient) \<Rightarrow> (string \<Rightarrow> string \<Rightarrow> string) \<Rightarrow> nat \<Rightarrow> string
     \<Rightarrow> Manager \<times> string list \<Rightarrow> Manager \<times> string list" where
  "goTask op msg cap nm st =
     (case st of (m, errChan) \<Rightarrow>
        (case map_of (clients m) nm of
           None \<Rightarrow> (m, errChan)
         | Some cl \<Rightarrow>
             (case op cl of
                (Some err, cl') \<Rightarrow> (storeClient m nm cl', chanSend cap errChan (msg nm err))
              | (None, cl') \<Rightarrow> (storeClient m nm cl', errChan))))"

definition taskErrors ::
  "(MCPClient \<Rightarrow> string option \<times> MCPClient) \<Rightarrow> (string \<Rightarrow> string \<Rightarrow> string) \<Rightarrow> Manager \<Rightarrow> string list \<Rightarrow> string list" where
  "taskErrors op msg m ns =
     List.map_filter (\<lambda>n. case map_of (clients m) n of
                          None \<Rightarrow> None
                        | Some cl \<Rightarrow> map_option (msg n) (fst (op cl))) ns"

definition applyTo :: "(MCPClient \<Rightarrow> string option \<times> MCPClient) \<Rightarrow> string set \<Rightarrow> Manager \<Rightarrow> Manager" where
  "applyTo op S m = m\<lparr>clients := map (\<lambda>(n, c). if n \<in> S then (n, snd (op c)) else (n, c)) (clients m)\<rparr>"

section \<open>The application (internal/app/app.go)\<close>

text \<open>
  What the application takes from outside: the Unicode part of \<open>strings.ToLower\<close>, the
  path of the URL that \<open>url.Parse\<close> returns for the base URL (or its error), the
  upstream server behind each configured name, and what \<open>http.ServeMux.Handle\<close> does
  with a pattern: \<open>muxPanic registered pattern\<close> is the message of the panic with which
  \<open>Handle\<close> refuses \<open>pattern\<close> when the patterns \<open>registered\<close> are in the mux (a
  pattern it cannot parse, or one in conflict with a registered pattern), and \<open>None\<close>
  when it accepts the pattern.
\<close>

record Env =
  unicodeLower :: "string \<Rightarrow> string"
  parseURLPath :: "string \<Rightarrow> string + string"
  upstreamOf :: "string \<Rightarrow> Upstream"
  muxPanic :: "string list \<Rightarrow> string \<Rightarrow> string option"

text \<open>The first loop of \<open>Run\<close>: one client per configured server, added to the manager.\<close>

fun createClients :: "(string \<Rightarrow> Upstream) \<Rightarrow> (string \<times> ServerConfig) list \<Rightarrow> Manager \<Rightarrow> string + Manager" where
  "createClients ups [] m = Inr m"
| "createClients ups ((nm, srvConfig) # rest) m =
     (case CreateClient (ups nm) nm srvConfig of
        Inl err \<Rightarrow> Inl (''failed to create client '' @ nm @ '': '' @ err)
      | Inr cl \<Rightarrow>
          (case AddClient m cl of
             (Some err, m') \<Rightarrow> Inl (''failed to add client '' @ nm @ '': '' @ err)
           | (None, m') \<Rightarrow> createClients ups rest m'))"

text \<open>
  \<open>createHTTPServer\<close>. A route is what \<open>mux.Handle\<close> registers: the pattern and the
  handler, which is the proxy server's handler wrapped in the middleware chain; the mux
  is the list of the routes registered so far.

  The function of one goroutine of the error group is \<open>routeTask\<close>. It returns an error
  (\<open>TaskError\<close>), or panics inside \<open>mux.Handle\<close> (\<open>TaskPanic\<close>), or registers its route
  (\<open>TaskRoute\<close>); it never returns (\<open>None\<close>) when the catalog of the upstream never
  ends. \<open>routeTasks\<close> runs the goroutines in the order \<open>order\<close> in which they reach the
  end of their function. A panic in a goroutine ends the whole process at once
  (\<open>Inl\<close>), whatever the other goroutines have done. Otherwise \<open>Wait\<close> returns the first
  error once all goroutines have returned, and never returns if one of them does not.
\<close>

record Route =
  routePattern :: string
  routeServer :: ProxyServer
  routeMiddlewares :: "Middleware list"

record HTTPServer =
  serverAddr :: string
  serverMux :: "Route list"

datatype TaskResult = TaskError string | TaskPanic string | TaskRoute Route

definition zeroServerConfig :: ServerConfig where
  "zeroServerConfig =
     \<lparr>Transport = '''', Command = '''', Args = [], Env = [], URL = '''', Headers = [], Timeout = 0,
      Options = None\<rparr>"

definition routeTask ::
  "Env \<Rightarrow> Config \<Rightarrow> string \<Rightarrow> string \<Rightarrow> MCPClient \<Rightarrow> Route list \<Rightarrow> TaskResult option" where
  "routeTask env cfg basePath nm mcpClient mux =
     (let srvConfig = (case map_of (Servers cfg) nm of Some sc \<Rightarrow> sc | None \<Rightarrow> zeroServerConfig)
      in case NewProxyServer nm (Proxy cfg) srvConfig of
           Inl err \<Rightarrow> Some (TaskError err)
         | Inr proxyServer \<Rightarrow>
             (case RegisterClient (unicodeLower env) proxyServer mcpClient of
                None \<Rightarrow> None
              | Some (Some err, ps', calls) \<Rightarrow> Some (TaskError err)
              | Some (None, ps', calls) \<Rightarrow>
                  (let middlewares = createMiddlewares nm srvConfig;
                       route = mcpRoute basePath nm
                   in case muxPanic env (map routePattern mux) route of
                        Some msg \<Rightarrow> Some (TaskPanic msg)
                      | None \<Rightarrow>
                          Some (TaskRoute \<lparr>routePattern = route, routeServer = ps',
                                           routeMiddlewares = middlewares\<rparr>))))"

text \<open>
  The state of the group: the mux, the errors returned so far, and whether a goroutine
  was met that never returns.
\<close>

fun routeTasks ::
  "Env \<Rightarrow> Config \<Rightarrow> string \<Rightarrow> (string \<times> MCPClient) list \<Rightarrow> string list
     \<Rightarrow> Route list \<times> string list \<times> bool \<Rightarrow> string + (Route list \<times> string list \<times> bool)" where
  "routeTasks env cfg basePath cls [] st = Inr st"
| "routeTasks env cfg basePath cls (nm # rest) (mux, errs, hung) =
     (case map_of cls nm of
        None \<Rightarrow> routeTasks env cfg basePath cls rest (mux, errs, hung)
      | Some cl \<Rightarrow>
          (case routeTask env cfg basePath nm cl mux of
             None \<Rightarrow> routeTasks env cfg basePath cls rest (mux, errs, True)
           | Some (TaskError err) \<Rightarrow> routeTasks env cfg basePath cls rest (mux, errs @ [err], hung)
           | Some (TaskPanic msg) \<Rightarrow> Inl msg
           | Some (TaskRoute route) \<Rightarrow> routeTasks env cfg basePath cls rest (mux @ [route], errs, hung)))"

text \<open>
  How the start of the application ends: \<open>Run\<close> returns an error, and \<open>main\<close> ends the
  process through \<open>log.Fatalf\<close> (exit status 1); or a goroutine panics and the process
  ends with the panic; or the HTTP server is started and serves until a signal arrives.
\<close>

datatype Startup = Returned string | Crashed string | Started HTTPServer

definition createHTTPServer :: "Env \<Rightarrow> Config \<Rightarrow> Manager \<Rightarrow> string list \<Rightarrow> Startup option" where
  "createHTTPServer env cfg m order =
     (case parseURLPath env (BaseURL (Proxy cfg)) of
        Inl err \<Rightarrow> Some (Returned err)
      | Inr basePath \<Rightarrow>
          (case routeTasks env cfg basePath (GetClients m) order ([], [], False) of
             Inl msg \<Rightarrow> Some (Crashed msg)
           | Inr (mux, errs, hung) \<Rightarrow>
               if hung then None
               else
                 (case errs of
                    [] \<Rightarrow> Some (Started \<lparr>serverAddr = Addr (Proxy cfg), serverMux = mux\<rparr>)
                  | err # rest \<Rightarrow> Some (Returned err))))"

text \<open>
  \<open>Run\<close> up to the start of the HTTP server; \<open>None\<close> when the start never ends. The
  shutdown that follows the signal is not part of this function.
\<close>

definition Run :: "Env \<Rightarrow> LoadInput \<Rightarrow> string list \<Rightarrow> string list \<Rightarrow> Startup option" where
  "Run env input order1 order2 =
     (case Load input of
        Inl err \<Rightarrow> Some (Returned err)
      | Inr cfg \<Rightarrow>
          (case Validate (unicodeLower env) (Some cfg) of
             Some err \<Rightarrow> Some (Returned err)
           | None \<Rightarrow>
               (case createClients (upstreamOf env) (Servers cfg) NewManager of
                  Inl err \<Rightarrow> Some (Returned err)
                | Inr m \<Rightarrow>
                    (case StartAll m order1 of
                       (Some err, m') \<Rightarrow> Some (Returned err)
                     | (None, m') \<Rightarrow> createHTTPServer env cfg m' order2))))"

subsection \<open>Concrete upstreams, clients and environment\<close>

definition failingUpstream :: Upstream where
  "failingUpstream = demoUpstream\<lparr>libNew := Some ''connection refused'', libClose := Some ''close failed''\<rparr>"

definition githubUpstream :: Upstream where
  "githubUpstream = demoUpstream\<lparr>libClose := Some ''broken pipe''\<rparr>"

definition filesUpstream :: Upstream where
  "filesUpstream = demoUpstream\<lparr>libInitialize := Some ''handshake failed''\<rparr>"

definition freshClient :: "ClientKind \<Rightarrow> string \<Rightarrow> Upstream \<Rightarrow> MCPClient" where
  "freshClient k nm up =
     \<lparr>kind = k, cname = nm, config = demoServerConfig None, hasClient = False, connected = False,
      upstream = up\<rparr>"

definition threeClients :: Manager where
  "threeClients =
     \<lparr>clients =
        [(''github'', freshClient StdioClient ''github'' githubUpstream),
         (''weather'', freshClient SSEClient ''weather'' failingUpstream),
         (''files'', freshClient StdioClient ''files'' filesUpstream)]\<rparr>"

text \<open>
  An environment in which \<open>weather\<close> cannot be reached, and one in which every upstream
  can. Their mux refuses a pattern that is registered already.
\<close>

definition demoMuxPanic :: "string list \<Rightarrow> string \<Rightarrow> string option" where
  "demoMuxPanic registered pat =
     (if pat \<in> set registered then Some (''pattern '' @ pat @ '' conflicts with pattern '' @ pat)
      else None)"

definition demoEnv :: Env where
  "demoEnv =
     \<lparr>unicodeLower = (\<lambda>s. s),
      parseURLPath = (\<lambda>u. if u = ''http://localhost/api'' then Inr ''/api'' else Inl ''parse error''),
      upstreamOf = (\<lambda>nm. if nm = ''weather'' then failingUpstream else demoUpstream),
      muxPanic = demoMuxPanic\<rparr>"

definition reachableEnv :: Env where
  "reachableEnv = demoEnv\<lparr>upstreamOf := (\<lambda>nm. demoUpstream)\<rparr>"

text \<open>Two servers whose names give the same route prefix.\<close>

definition clashConfig :: Config where
  "clashConfig =
     \<lparr>Proxy = demoProxyConfig,
      Servers = [(''a'', demoServerConfig None), (''a/'', demoServerConfig None)]\<rparr>"

section \<open>Verified properties: the proxy server\<close>

lemma fold_AddTool:
  "fold (\<lambda>tool s. if f (Name tool) then AddTool s tool else s) ts srv =
   srv\<lparr>tools := tools srv @ filter (\<lambda>t. f (Name t)) ts\<rparr>"
  by (induction ts arbitrary: srv) (simp_all add: AddTool_def)

lemma addTools_loop_serves:
  "servesPages (ListTools cl) c pages \<Longrightarrow>
   addTools_loop f cl c srv calls =
     Some (None,
           srv\<lparr>tools := tools srv @ filter (\<lambda>t. f (Name t)) (concat (map Tools (fetched pages)))\<rparr>,
           calls @ map ListToolsCall (requestCursors c pages))"
proof (induction "ListTools cl" c pages arbitrary: srv calls rule: servesPages.induct)
  case (1 c)
  then show ?case by simp
next
  case (2 c p)
  then show ?case
    by (subst addTools_loop.simps) (simp add: fold_AddTool fetched_def requestCursors_def)
next
  case (3 c p q ps)
  from 3(2) have lt: "ListTools cl c = Inr p" and nc: "NextCursor p \<noteq> ''''"
    and rest: "servesPages (ListTools cl) (NextCursor p) (q # ps)" by simp_all
  show ?case
  proof (cases "Tools p = []")
    case True
    then show ?thesis using lt
      by (subst addTools_loop.simps) (simp add: fetched_def requestCursors_def)
  next
    case False
    then show ?thesis using lt nc 3(1)[OF rest]
      by (subst addTools_loop.simps) (simp add: fold_AddTool fetched_def requestCursors_def)
  qed
qed

lemma addTools_serves:
  assumes "servesPages (ListTools cl) '''' pages"
  shows "addTools uni ps cl =
           Some (None,
                 ps\<lparr>mcpServer := (mcpServer ps)\<lparr>tools := tools (mcpServer ps) @
                       filter (\<lambda>t. createToolFilter uni ps (Name t))
                         (concat (map Tools (fetched pages)))\<rparr>\<rparr>,
                 map ListToolsCall (requestCursors '''' pages))"
  using addTools_loop_serves[OF assms, of "createToolFilter uni ps" "mcpServer ps" "[]"]
  by (simp add: addTools_def)

lemma demo_serves: "servesPages (ListTools (demoClient True)) '''' demoPages"
  by (simp add: demoPages_def ListTools_def demoClient_def demoUpstream_def demoListTools_def)

lemma fold_insert_set: "fold (\<lambda>x s. insert x s) xs A = set xs \<union> A"
  by (induction xs arbitrary: A) auto

lemma createToolFilter_cases:
  "createToolFilter uni ps =
     (case Options (serverConfig ps) of
        None \<Rightarrow> (\<lambda>n. True)
      | Some opts \<Rightarrow>
          (case ToolFilter opts of
             None \<Rightarrow> (\<lambda>n. True)
           | Some tf \<Rightarrow>
               if List tf = [] then (\<lambda>n. True)
               else if ToLower uni (Mode tf) = ''allow'' then (\<lambda>n. n \<in> set (List tf))
               else if ToLower uni (Mode tf) = ''block'' then (\<lambda>n. n \<notin> set (List tf))
               else (\<lambda>n. True)))"
  by (simp add: createToolFilter_def fold_insert_set ToolFilterModeAllow_def ToolFilterModeBlock_def
      Let_def split: option.splits)

text \<open>
  C2. The tool filter. Let the upstream serve a catalog in pages and let \<open>T\<close> be the names
  of the tools on the pages the loop reads (all pages, when none but the last is empty).
  On a proxy server with no tool registered yet, \<open>addTools\<close> returns without error and the
  set of registered tool names is \<open>T \<inter> L\<close> when the filter list \<open>L\<close> is non-empty and the
  mode (lower-cased, as the code compares it) is \<open>allow\<close>, \<open>T - L\<close> when it is \<open>block\<close>,
  and \<open>T\<close> in every other case: no options, no filter, an empty list, or any other mode.
\<close>

theorem tool_filter_registered_names:
  assumes "servesPages (ListTools cl) '''' pages" and "tools (mcpServer ps) = []"
  shows "map_option (\<lambda>(err, ps', calls). (err, registeredNames ps')) (addTools uni ps cl) =
           Some (None,
             (case Options (serverConfig ps) of
                None \<Rightarrow> servedNames pages
              | Some opts \<Rightarrow>
                  (case ToolFilter opts of
                     None \<Rightarrow> servedNames pages
                   | Some tf \<Rightarrow>
                       if List tf = [] then servedNames pages
                       else if ToLower uni (Mode tf) = ''allow'' then servedNames pages \<inter> set (List tf)
                       else if ToLower uni (Mode tf) = ''block'' then servedNames pages - set (List tf)
                       else servedNames pages)))"
proof -
  have names: "registeredNames (ps\<lparr>mcpServer := (mcpServer ps)\<lparr>tools := tools (mcpServer ps) @
                  filter (\<lambda>t. createToolFilter uni ps (Name t))
                    (concat (map Tools (fetched pages)))\<rparr>\<rparr>) =
        {n \<in> servedNames pages. createToolFilter uni ps n}"
    using assms(2) by (auto simp add: registeredNames_def servedNames_def)
  show ?thesis
    unfolding addTools_serves[OF assms(1)] using names
    by (auto simp add: createToolFilter_cases split: option.splits)
qed

text \<open>
  Witness for C2 on the five-tool upstream: an allow list \<open>t2, t9\<close> (mode written
  \<open>Allow\<close>) registers \<open>t2\<close> only.
\<close>

theorem tool_filter_registered_names_witness:
  "servesPages (ListTools (demoClient True)) '''' demoPages \<and>
   tools (mcpServer (demoProxy (filterConfig ''Allow'' [''t2'', ''t9'']))) = [] \<and>
   map_option (\<lambda>(err, ps', calls). (err, registeredNames ps'))
     (addTools (\<lambda>s. s) (demoProxy (filterConfig ''Allow'' [''t2'', ''t9''])) (demoClient True)) =
     Some (None, {''t2''})"
proof -
  have fresh: "tools (mcpServer (demoProxy (filterConfig ''Allow'' [''t2'', ''t9'']))) = []"
    by (simp add: demoProxy_def)
  have lower: "ToLower (\<lambda>s. s) ''Allow'' = ''allow''"
    by code_simp
  have served: "servedNames demoPages = {''t1'', ''t2'', ''t3'', ''t4'', ''t5''}"
    by (simp add: servedNames_def fetched_def demoPages_def mkTool_def)
  have cfg: "Options (serverConfig (demoProxy (filterConfig ''Allow'' [''t2'', ''t9'']))) =
               Some \<lparr>PanicIfInvalid = None, LogEnabled = None, AuthTokens = None,
                     ToolFilter = Some \<lparr>Mode = ''Allow'', List = [''t2'', ''t9'']\<rparr>\<rparr>"
    by (simp add: demoProxy_def demoServerConfig_def filterConfig_def)
  show ?thesis
    using tool_filter_registered_names[OF demo_serves fresh, of "\<lambda>s. s"] demo_serves fresh
    unfolding cfg by (simp add: lower served)
qed

text \<open>
  C3 (as amended). When the upstream serves a catalog in pages chained by non-empty
  cursors, \<open>addTools\<close> returns without error; it requests the first page with the empty
  cursor and every further page with the cursor the page before returned, stops after a
  page with no items or with an empty next cursor, and registers, once each and in
  order, the tools of the pages it read that pass the tool filter.
\<close>

theorem addTools_drains_pagination:
  assumes "servesPages (ListTools cl) '''' pages"
  shows "addTools uni ps cl =
           Some (None,
                 ps\<lparr>mcpServer := (mcpServer ps)\<lparr>tools := tools (mcpServer ps) @
                       filter (\<lambda>t. createToolFilter uni ps (Name t))
                         (concat (map Tools (fetched pages)))\<rparr>\<rparr>,
                 map ListToolsCall (requestCursors '''' pages))"
  by (rule addTools_serves[OF assms])

text \<open>
  Witness for C3 as amended: on pages of 2, 2, 1 and 0 tools, with no filter, the five
  tools are registered and four requests are issued.
\<close>

theorem addTools_drains_pagination_witness:
  "servesPages (ListTools (demoClient True)) '''' demoPages \<and>
   map_option (\<lambda>(err, ps', calls). (err, map Name (tools (mcpServer ps')), calls))
     (addTools (\<lambda>s. s) (demoProxy None) (demoClient True)) =
     Some (None, [''t1'', ''t2'', ''t3'', ''t4'', ''t5''],
           [ListToolsCall '''', ListToolsCall ''c1'', ListToolsCall ''c2'', ListToolsCall ''c3''])"
  using addTools_drains_pagination[OF demo_serves, of "\<lambda>s. s" "demoProxy None"] demo_serves
  by (simp add: createToolFilter_def demoServerConfig_def fetched_def requestCursors_def
      demoPages_def mkTool_def demoProxy_def)

text \<open>
  Counterexample to C3 as stated: on pages of 2, 2, 1 and 0 tools with non-empty
  cursors between consecutive pages, five tools are registered with four requests,
  not three: the empty fourth page has to be requested before it can end the loop.
\<close>

theorem addTools_three_fetches_counterexample:
  "map_option (\<lambda>(err, ps', calls). (length (tools (mcpServer ps')), length calls))
     (addTools (\<lambda>s. s) (demoProxy None) (demoClient True)) = Some (5, 4) \<and>
   map (\<lambda>p. length (Tools p)) demoPages = [2, 2, 1, 0] \<and>
   map (\<lambda>p. NextCursor p = '''') demoPages = [False, False, False, True] \<and>
   (4::nat) \<noteq> 3"
  by (simp add: addTools_def createToolFilter_def demoServerConfig_def addTools_loop.simps
      ListTools_def demoClient_def demoUpstream_def demoListTools_def demoPages_def AddTool_def
      demoProxy_def mkTool_def)

lemma addTools_client:
  "addTools uni ps cl = Some (err, ps', calls) \<Longrightarrow> client ps' = client ps \<and> name ps' = name ps"
  by (auto simp add: addTools_def split: option.splits)

lemma addPrompts_client:
  "addPrompts ps cl = Some (err, ps', calls) \<Longrightarrow> client ps' = client ps \<and> name ps' = name ps"
  by (auto simp add: addPrompts_def split: option.splits)

lemma addResources_client:
  "addResources ps cl = Some (err, ps', calls) \<Longrightarrow> client ps' = client ps \<and> name ps' = name ps"
  by (auto simp add: addResources_def split: option.splits)

lemma addResourceTemplates_client:
  "addResourceTemplates ps cl = Some (err, ps', calls) \<Longrightarrow>
   client ps' = client ps \<and> name ps' = name ps"
  by (auto simp add: addResourceTemplates_def split: option.splits)

lemma addClientResources_client:
  assumes "addClientResources uni ps cl = Some (err, ps', calls)"
  shows "client ps' = client ps \<and> name ps' = name ps"
  using assms unfolding addClientResources_def
  by (auto split: option.splits prod.splits
      dest!: addTools_client addPrompts_client addResources_client addResourceTemplates_client)

lemma addClientResources_error:
  assumes "addClientResources uni ps cl = Some (Some err, ps', calls)"
  shows "\<exists>e. addTools uni ps cl = Some (Some e, ps', calls) \<and> err = ''failed to add tools: '' @ e"
  using assms unfolding addClientResources_def
  by (auto split: option.splits prod.splits)

text \<open>
  C6. On a proxy server that has a client, \<open>RegisterClient\<close> returns the error
  \<open>client already registered for server <name>\<close> for every client offered, issues no
  call, and leaves the proxy server as it was, the registered client included.
\<close>

theorem RegisterClient_already_bound:
  assumes "client ps = Some c"
  shows "RegisterClient uni ps c' =
           Some (Some (''client already registered for server '' @ name ps), ps, [])"
  using assms by (simp add: RegisterClient_def)

theorem RegisterClient_already_bound_witness:
  "client ((demoProxy None)\<lparr>client := Some (demoClient True)\<rparr>) = Some (demoClient True) \<and>
   RegisterClient (\<lambda>s. s) ((demoProxy None)\<lparr>client := Some (demoClient True)\<rparr>) (demoClient False) =
     Some (Some ''client already registered for server github'',
           (demoProxy None)\<lparr>client := Some (demoClient True)\<rparr>, [])"
  using RegisterClient_already_bound[of "(demoProxy None)\<lparr>client := Some (demoClient True)\<rparr>"
      "demoClient True" "\<lambda>s. s" "demoClient False"]
  by (simp add: demoProxy_def)

text \<open>
  C10. When \<open>RegisterClient\<close> on a proxy server without a client returns an error, the
  error comes from \<open>addTools\<close> (the fetch of the tool catalog), the proxy server is left
  with the client registered, a further \<open>RegisterClient\<close> with any client returns the
  already-registered error and changes nothing, and \<open>UnregisterClient\<close> clears the
  registration.
\<close>

theorem RegisterClient_failure_keeps_binding:
  assumes "client ps = None" and "RegisterClient uni ps cl = Some (Some err, ps', calls)"
  shows "client ps' = Some cl \<and>
         addTools uni (ps\<lparr>client := Some cl\<rparr>) cl =
           Some (Some (drop (length ''failed to add client resources: failed to add tools: '') err),
                 ps', calls) \<and>
         RegisterClient uni ps' cl2 =
           Some (Some (''client already registered for server '' @ name ps), ps', []) \<and>
         UnregisterClient ps' = (None, ps'\<lparr>client := None\<rparr>)"
proof -
  from assms obtain e where
    acr: "addClientResources uni (ps\<lparr>client := Some cl\<rparr>) cl = Some (Some e, ps', calls)"
    and err: "err = ''failed to add client resources: '' @ e"
    by (auto simp add: RegisterClient_def split: option.splits prod.splits)
  from addClientResources_client[OF acr] have cl: "client ps' = Some cl" and nm: "name ps' = name ps"
    by simp_all
  from addClientResources_error[OF acr] obtain e' where
    at: "addTools uni (ps\<lparr>client := Some cl\<rparr>) cl = Some (Some e', ps', calls)"
    and e: "e = ''failed to add tools: '' @ e'" by blast
  show ?thesis using cl nm at e err
    by (simp add: RegisterClient_def UnregisterClient_def)
qed

text \<open>
  Witness for C10: a client that is not connected makes the first \<open>ListTools\<close> fail.
\<close>

lemma demo_register_disconnected:
  "RegisterClient (\<lambda>s. s) (demoProxy None) (demoClient False) =
     Some (Some ''failed to add client resources: failed to add tools: client not connected'',
           (demoProxy None)\<lparr>client := Some (demoClient False)\<rparr>, [ListToolsCall ''''])"
  by (simp add: RegisterClient_def addClientResources_def addTools_def addTools_loop.simps
      ListTools_def demoClient_def demoProxy_def)

theorem RegisterClient_failure_keeps_binding_witness:
  "client (demoProxy None) = None \<and>
   RegisterClient (\<lambda>s. s) (demoProxy None) (demoClient False) =
     Some (Some ''failed to add client resources: failed to add tools: client not connected'',
           (demoProxy None)\<lparr>client := Some (demoClient False)\<rparr>, [ListToolsCall '''']) \<and>
   client ((demoProxy None)\<lparr>client := Some (demoClient False)\<rparr>) = Some (demoClient False) \<and>
   RegisterClient (\<lambda>s. s) ((demoProxy None)\<lparr>client := Some (demoClient False)\<rparr>) (demoClient True) =
     Some (Some ''client already registered for server github'',
           (demoProxy None)\<lparr>client := Some (demoClient False)\<rparr>, []) \<and>
   UnregisterClient ((demoProxy None)\<lparr>client := Some (demoClient False)\<rparr>) = (None, demoProxy None)"
proof -
  have none: "client (demoProxy None) = None" by (simp add: demoProxy_def)
  show ?thesis
    using RegisterClient_failure_keeps_binding[OF none demo_register_disconnected, of "demoClient True"]
      none demo_register_disconnected
    by (simp add: demoProxy_def)
qed

section \<open>Verified properties: the auth middleware\<close>

lemma auth_New_tokens: "tokens (auth_New toks) = set toks"
  by (simp add: auth_New_def fold_insert_set)

text \<open>
  C1 (as amended). With a non-empty token list, the auth middleware hands the request to
  the next handler exactly when the value of the \<open>Authorization\<close> header, after one
  leading \<open>Bearer \<close> (if there is one) and the surrounding white space are removed, is
  not empty and is one of the configured tokens; otherwise the response is
  401 \<open>Unauthorized\<close>, whatever the next handler is. \<open>createMiddlewares\<close> puts no auth
  middleware in the chain when the options are missing or hold no token, and puts it last
  when they hold at least one.
\<close>

theorem auth_Handle_decision:
  "(toks \<noteq> [] \<longrightarrow>
      auth_Handle (auth_New toks) next r w =
        (if TrimSpace (TrimPrefix (Header_Get (Header r) ''Authorization'') ''Bearer '') \<noteq> '''' \<and>
            TrimSpace (TrimPrefix (Header_Get (Header r) ''Authorization'') ''Bearer '') \<in> set toks
         then next r w
         else http_Error w ''Unauthorized'' 401)) \<and>
   ((case Options cfg of None \<Rightarrow> True
     | Some opts \<Rightarrow> (case AuthTokens opts of None \<Rightarrow> True | Some ts \<Rightarrow> ts = [])) \<longrightarrow>
      ''auth'' \<notin> set (map Middleware_GetName (createMiddlewares clientName cfg))) \<and>
   ((case Options cfg of None \<Rightarrow> False
     | Some opts \<Rightarrow> (case AuthTokens opts of None \<Rightarrow> False | Some ts \<Rightarrow> ts = ts' \<and> ts \<noteq> [])) \<longrightarrow>
      last (createMiddlewares clientName cfg) = AuthMiddleware (auth_New ts'))"
  by (auto simp add: auth_Handle_def auth_New_tokens Let_def StatusUnauthorized_def
      createMiddlewares_def split: option.splits bool.splits)

text \<open>
  Witness for C1 as amended: token \<open>secret\<close>; \<open>Bearer secret\<close> passes, \<open>Basic secret\<close>
  and a request without the header are rejected.
\<close>

theorem auth_Handle_decision_witness:
  "[''secret''] \<noteq> [] \<and>
   auth_Handle (auth_New [''secret'']) okHandler (authRequest [''Bearer secret'']) emptyWriter =
     okHandler (authRequest [''Bearer secret'']) emptyWriter \<and>
   auth_Handle (auth_New [''secret'']) okHandler (authRequest [''Basic secret'']) emptyWriter =
     http_Error emptyWriter ''Unauthorized'' 401 \<and>
   auth_Handle (auth_New [''secret'']) okHandler (authRequest []) emptyWriter =
     http_Error emptyWriter ''Unauthorized'' 401 \<and>
   ''auth'' \<notin> set (map Middleware_GetName (createMiddlewares ''github'' (demoServerConfig (tokenConfig (Some []))))) \<and>
   last (createMiddlewares ''github'' (demoServerConfig (tokenConfig (Some [''secret''])))) =
     AuthMiddleware (auth_New [''secret''])"
proof -
  have t1: "TrimSpace (TrimPrefix ''Bearer secret'' ''Bearer '') = ''secret''" by code_simp
  have t2: "TrimSpace (TrimPrefix ''Basic secret'' ''Bearer '') = ''Basic secret''" by code_simp
  have t3: "TrimSpace (TrimPrefix '''' ''Bearer '') = ''''" by code_simp
  have h1: "Header_Get (Header (authRequest [''Bearer secret''])) ''Authorization'' = ''Bearer secret''"
    and h2: "Header_Get (Header (authRequest [''Basic secret''])) ''Authorization'' = ''Basic secret''"
    and h3: "Header_Get (Header (authRequest [])) ''Authorization'' = ''''"
    by (simp_all add: authRequest_def Header_Get_def)
  have o1: "Options (demoServerConfig (tokenConfig (Some []))) =
              Some \<lparr>PanicIfInvalid = None, LogEnabled = Some True, AuthTokens = Some [], ToolFilter = None\<rparr>"
    and o2: "Options (demoServerConfig (tokenConfig (Some [''secret'']))) =
              Some \<lparr>PanicIfInvalid = None, LogEnabled = Some True, AuthTokens = Some [''secret''],
                    ToolFilter = None\<rparr>"
    by (simp_all add: demoServerConfig_def tokenConfig_def)
  show ?thesis
    using auth_Handle_decision[of "[''secret'']" okHandler "authRequest [''Bearer secret'']" emptyWriter
        "demoServerConfig (tokenConfig (Some []))" "''github''" "[]"]
      auth_Handle_decision[of "[''secret'']" okHandler "authRequest [''Basic secret'']" emptyWriter
        "demoServerConfig (tokenConfig (Some [''secret'']))" "''github''" "[''secret'']"]
      auth_Handle_decision[of "[''secret'']" okHandler "authRequest []" emptyWriter
        "demoServerConfig None" "''github''" "[]"]
    unfolding h1 h2 h3 t1 t2 t3 o1 o2
    by simp
qed

text \<open>
  Counterexample to C1 as stated: with the token \<open>secret\<close> configured, a request whose
  \<open>Authorization\<close> header is \<open>secret\<close>, with no \<open>Bearer\<close> scheme, reaches the next handler.
\<close>

theorem auth_accepts_bare_token_counterexample:
  "auth_Handle (auth_New [''secret'']) okHandler (authRequest [''secret'']) emptyWriter =
     okHandler (authRequest [''secret'']) emptyWriter \<and>
   okHandler (authRequest [''secret'']) emptyWriter \<noteq> http_Error emptyWriter ''Unauthorized'' 401 \<and>
   Header_Get (Header (authRequest [''secret''])) ''Authorization'' \<noteq> ''Bearer secret''"
proof -
  have t: "TrimSpace (TrimPrefix ''secret'' ''Bearer '') = ''secret''" by code_simp
  show ?thesis
    by (simp add: auth_Handle_def auth_New_def authRequest_def Header_Get_def t okHandler_def
        emptyWriter_def http_Error_def)
qed

section \<open>Verified properties: configuration defaults\<close>

lemma map_of_map_snd:
  "map_of (map (\<lambda>(k, v). (k, f v)) xs) k = map_option f (map_of xs k)"
  by (induction xs) auto

text \<open>
  C4 (as amended). After \<open>setDefaults\<close> every server has options, in which
  \<open>panicIfInvalid\<close>, \<open>logEnabled\<close> and \<open>authTokens\<close> are the server's own value when it
  is set and the proxy's value when it is not, and \<open>toolFilter\<close> is the server's own
  value, set or not: the tool filter is not taken from the proxy options.
  (\<open>orEmpty\<close> reads missing options as options with no field set.)
\<close>

theorem setDefaults_inherits:
  assumes "map_of (Servers cfg) nm = Some sc"
  shows "map_option Options (map_of (Servers (setDefaults cfg)) nm) =
           Some (Some
             \<lparr>PanicIfInvalid =
                (case PanicIfInvalid (orEmpty (Options sc)) of
                   None \<Rightarrow> PanicIfInvalid (orEmpty (ProxyOptions (Proxy cfg))) | Some b \<Rightarrow> Some b),
              LogEnabled =
                (case LogEnabled (orEmpty (Options sc)) of
                   None \<Rightarrow> LogEnabled (orEmpty (ProxyOptions (Proxy cfg))) | Some b \<Rightarrow> Some b),
              AuthTokens =
                (case AuthTokens (orEmpty (Options sc)) of
                   None \<Rightarrow> AuthTokens (orEmpty (ProxyOptions (Proxy cfg))) | Some ts \<Rightarrow> Some ts),
              ToolFilter = ToolFilter (orEmpty (Options sc))\<rparr>)"
  using assms
  by (simp add: setDefaults_def Let_def map_of_map_snd setServerDefaults_def inheritProxyDefaults_def
      orEmpty_def emptyOptions_def split: option.splits)

text \<open>
  Witness for C4 as amended: the server \<open>weather\<close> sets \<open>logEnabled\<close> only; it keeps it,
  takes \<open>panicIfInvalid\<close> and \<open>authTokens\<close> from the proxy, and gets no tool filter.
\<close>

theorem setDefaults_inherits_witness:
  "map_of (Servers (demoConfig False)) ''weather'' = Some weatherServerConfig \<and>
   map_option Options (map_of (Servers (setDefaults (demoConfig False))) ''weather'') =
     Some (Some \<lparr>PanicIfInvalid = Some False, LogEnabled = Some False,
                 AuthTokens = Some [''default-token-123''], ToolFilter = None\<rparr>)"
proof -
  have look: "map_of (Servers (demoConfig False)) ''weather'' = Some weatherServerConfig"
    by (simp add: demoConfig_def)
  show ?thesis
    using setDefaults_inherits[OF look] look
    by (simp add: demoConfig_def weatherServerConfig_def demoProxyOptions_def orEmpty_def)
qed

text \<open>
  Counterexample to C4 as stated: the proxy options hold a tool filter, the server
  \<open>github\<close> has no options at all, and after \<open>setDefaults\<close> its tool filter is still
  unset, while its three other fields are the proxy's.
\<close>

theorem setDefaults_toolFilter_counterexample:
  "map_option Options (map_of (Servers (setDefaults (demoConfig False))) ''github'') =
     Some (Some \<lparr>PanicIfInvalid = Some False, LogEnabled = Some True,
                 AuthTokens = Some [''default-token-123''], ToolFilter = None\<rparr>) \<and>
   map_option ToolFilter (ProxyOptions (Proxy (setDefaults (demoConfig False)))) =
     Some (Some \<lparr>Mode = ''block'', List = [''create_or_update_file'']\<rparr>) \<and>
   Options (demoServerConfig None) = None"
  by (simp add: setDefaults_def Let_def setServerDefaults_def inheritProxyDefaults_def
      demoConfig_def demoServerConfig_def demoProxyOptions_def demoProxyConfig_def emptyOptions_def)

section \<open>Verified properties: the route prefix\<close>

lemma splitSlash_nonempty: "splitSlash s \<noteq> []"
  by (induction s) (auto split: list.splits)

lemma splitSlash_append: "splitSlash (a @ CHR ''/'' # b) = splitSlash a @ splitSlash b"
  by (induction a) (auto split: list.splits simp add: splitSlash_nonempty)

lemma splitSlash_noslash: "CHR ''/'' \<notin> set s \<Longrightarrow> splitSlash s = [s]"
  by (induction s) auto

lemma splitSlash_segments: "seg \<in> set (splitSlash s) \<Longrightarrow> CHR ''/'' \<notin> set seg"
  by (induction s arbitrary: seg) (auto split: list.splits if_splits)

lemma fold_cleanStep:
  "list_all (\<lambda>s. s \<noteq> ''.'' \<and> s \<noteq> ''..'') es \<Longrightarrow>
   fold (cleanStep r) es st = st @ filter (\<lambda>s. s \<noteq> '''') es"
  by (induction es arbitrary: st) (auto simp add: cleanStep_def)

lemma joinSlash_snoc:
  "joinSlash (xs @ [nm]) = concat (map (\<lambda>s. s @ ''/'') xs) @ nm"
  by (induction xs rule: joinSlash.induct) auto

lemma joined_two:
  "nm \<noteq> '''' \<Longrightarrow>
   fold (\<lambda>e buf. if length buf > 0 \<or> e \<noteq> ''''
                   then (if length buf > 0 then buf @ ''/'' else buf) @ e else buf)
     [base, nm] '''' = (if base = '''' then nm else base @ CHR ''/'' # nm)"
  by simp

lemma not_HasPrefix_slash:
  assumes "\<forall>s \<in> set xs. s \<noteq> '''' \<and> CHR ''/'' \<notin> set s" and "nm \<noteq> ''''" and "CHR ''/'' \<notin> set nm"
  shows "\<not> HasPrefix (concat (map (\<lambda>s. s @ ''/'') xs) @ nm) ''/''"
proof (cases xs)
  case Nil
  with assms show ?thesis by (cases nm) (auto simp add: HasPrefix_def)
next
  case (Cons x rest)
  with assms have "x \<noteq> ''''" and "CHR ''/'' \<notin> set x" by auto
  then show ?thesis using Cons by (cases x) (auto simp add: HasPrefix_def)
qed

lemma not_HasSuffix_slash:
  assumes "nm \<noteq> ''''" and "CHR ''/'' \<notin> set nm"
  shows "\<not> HasSuffix (z @ nm) ''/''"
proof -
  from assms obtain ys y where nm: "nm = ys @ [y]" and y: "y \<noteq> CHR ''/''"
    by (cases nm rule: rev_cases) auto
  show ?thesis by (simp add: HasSuffix_def nm y)
qed

lemma path_Clean_plain:
  assumes "noDotSegments base" and "plainName nm" and "base \<noteq> ''''"
  shows "path_Clean (base @ CHR ''/'' # nm) =
           (if hd base = CHR ''/'' then ''/'' else '''') @
           concat (map (\<lambda>s. s @ ''/'') (filter (\<lambda>s. s \<noteq> '''') (splitSlash base))) @ nm"
proof -
  from assms(2) have nm: "nm \<noteq> ''''" "CHR ''/'' \<notin> set nm" "nm \<noteq> ''.''" "nm \<noteq> ''..''"
    by (simp_all add: plainName_def)
  have split: "splitSlash (base @ CHR ''/'' # nm) = splitSlash base @ [nm]"
    by (simp add: splitSlash_append splitSlash_noslash nm)
  have all: "list_all (\<lambda>s. s \<noteq> ''.'' \<and> s \<noteq> ''..'') (splitSlash base @ [nm])"
    using assms(1) nm by (simp add: noDotSegments_def)
  have hd: "hd (base @ CHR ''/'' # nm) = hd base" using assms(3) by simp
  have out: "concat (map (\<lambda>s. s @ ''/'') (filter (\<lambda>s. s \<noteq> '''') (splitSlash base))) @ nm \<noteq> ''''"
    using nm by simp
  show ?thesis
    unfolding path_Clean_def split hd fold_cleanStep[OF all]
    using nm out by (simp add: Let_def joinSlash_snoc)
qed

lemma path_Clean_name:
  assumes "plainName nm"
  shows "path_Clean nm = nm"
proof -
  from assms have nm: "nm \<noteq> ''''" "CHR ''/'' \<notin> set nm" "nm \<noteq> ''.''" "nm \<noteq> ''..''"
    by (simp_all add: plainName_def)
  then have hd: "hd nm \<noteq> CHR ''/''" by (cases nm) auto
  show ?thesis
    using nm hd by (simp add: path_Clean_def splitSlash_noslash cleanStep_def)
qed

lemma mcpRoute_plain:
  assumes "noDotSegments base" and "plainName nm"
  shows "mcpRoute base nm =
           ''/'' @ concat (map (\<lambda>s. s @ ''/'') (filter (\<lambda>s. s \<noteq> '''') (splitSlash base) @ [nm]))"
proof -
  from assms(2) have nm: "nm \<noteq> ''''" "CHR ''/'' \<notin> set nm" by (simp_all add: plainName_def)
  let ?segs = "filter (\<lambda>s. s \<noteq> '''') (splitSlash base)"
  have segs: "\<forall>s \<in> set ?segs. s \<noteq> '''' \<and> CHR ''/'' \<notin> set s"
    using splitSlash_segments by auto
  have join: "path_Join [base, nm] =
      (if base = '''' then nm
       else (if hd base = CHR ''/'' then ''/'' else '''') @ concat (map (\<lambda>s. s @ ''/'') ?segs) @ nm)"
    using nm path_Clean_plain[OF assms] path_Clean_name[OF assms(2)]
    by (simp add: path_Join_def)
  show ?thesis
  proof (cases "base = ''''")
    case True
    have "\<not> HasPrefix nm ''/''" using not_HasPrefix_slash[of "[]" nm] nm by simp
    moreover have "\<not> HasSuffix (''/'' @ nm) ''/''" using not_HasSuffix_slash[OF nm] by blast
    ultimately show ?thesis using True join by (simp add: mcpRoute_def)
  next
    case False
    show ?thesis
    proof (cases "hd base = CHR ''/''")
      case True
      have pre: "HasPrefix (''/'' @ concat (map (\<lambda>s. s @ ''/'') ?segs) @ nm) ''/''"
        by (simp add: HasPrefix_def)
      have suf: "\<not> HasSuffix ((''/'' @ concat (map (\<lambda>s. s @ ''/'') ?segs)) @ nm) ''/''"
        by (rule not_HasSuffix_slash[OF nm])
      show ?thesis using False True join pre suf by (simp add: mcpRoute_def)
    next
      case nr: False
      have pre: "\<not> HasPrefix (concat (map (\<lambda>s. s @ ''/'') ?segs) @ nm) ''/''"
        by (rule not_HasPrefix_slash[OF segs nm])
      have suf: "\<not> HasSuffix ((''/'' @ concat (map (\<lambda>s. s @ ''/'') ?segs)) @ nm) ''/''"
        by (rule not_HasSuffix_slash[OF nm])
      show ?thesis using False nr join pre suf by (simp add: mcpRoute_def)
    qed
  qed
qed

text \<open>
  C9 (as amended). The route prefix always starts and ends with a slash. When the base
  path has no \<open>.\<close> or \<open>..\<close> element and the name is a single path element other than
  \<open>.\<close> and \<open>..\<close>, the prefix is a slash followed by the non-empty elements of the base
  path and the name, each followed by a slash. In general the prefix is \<open>path.Join\<close> of
  base path and name, which resolves \<open>.\<close> and \<open>..\<close> elements, with a slash put in front
  and behind where there is none.
\<close>

theorem mcpRoute_normalized:
  "HasPrefix (mcpRoute base nm) ''/'' \<and> HasSuffix (mcpRoute base nm) ''/'' \<and>
   (noDotSegments base \<and> plainName nm \<longrightarrow>
      mcpRoute base nm =
        ''/'' @ concat (map (\<lambda>s. s @ ''/'') (filter (\<lambda>s. s \<noteq> '''') (splitSlash base) @ [nm])))"
proof -
  have "HasPrefix (mcpRoute base nm) ''/'' \<and> HasSuffix (mcpRoute base nm) ''/''"
    by (auto simp add: mcpRoute_def Let_def HasPrefix_def HasSuffix_def)
  then show ?thesis using mcpRoute_plain by blast
qed

text \<open>
  Witness for C9 as amended: the base paths \<open>api\<close> and \<open>/api/\<close> with the name \<open>github\<close>
  both give \<open>/api/github/\<close>.
\<close>

theorem mcpRoute_normalized_witness:
  "noDotSegments ''api'' \<and> noDotSegments ''/api/'' \<and> plainName ''github'' \<and>
   mcpRoute ''api'' ''github'' = ''/api/github/'' \<and>
   mcpRoute ''/api/'' ''github'' = ''/api/github/''"
proof -
  have a: "noDotSegments ''api''" and b: "noDotSegments ''/api/''" and c: "plainName ''github''"
    by (simp_all add: noDotSegments_def plainName_def)
  have sa: "splitSlash ''api'' = [''api'']" and sb: "splitSlash ''/api/'' = ['''', ''api'', '''']"
    by simp_all
  show ?thesis
    using mcpRoute_normalized[of "''api''" "''github''"] mcpRoute_normalized[of "''/api/''" "''github''"]
      a b c
    unfolding sa sb by simp
qed

text \<open>
  Counterexample to C9 as stated: for the base path \<open>/api\<close> and the upstream name \<open>..\<close>
  the route prefix is \<open>/\<close>, which holds neither the base path nor the name; an upstream
  name with a \<open>..\<close> element inside loses the element before it.
\<close>

theorem mcpRoute_dotdot_counterexample:
  "mcpRoute ''/api'' ''..'' = ''/'' \<and> mcpRoute ''/api'' ''a/../b'' = ''/api/b/'' \<and>
   ''/'' \<noteq> ''/api/../''"
  by (simp add: mcpRoute_def path_Join_def path_Clean_def cleanStep_def HasPrefix_def HasSuffix_def)

section \<open>Verified properties: the client manager\<close>

lemma startTask_goTask: "startTask = goTask Connect (\<lambda>nm err. ''failed to start client '' @ nm @ '': '' @ err)"
  by (intro ext) (simp only: startTask_def goTask_def)

lemma stopTask_goTask: "stopTask = goTask Disconnect (\<lambda>nm err. ''failed to stop client '' @ nm @ '': '' @ err)"
  by (intro ext) (simp only: stopTask_def goTask_def)

lemma map_of_distinct_entry:
  "distinct (map fst xs) \<Longrightarrow> (k, v) \<in> set xs \<Longrightarrow> map_of xs k = Some v"
  by simp

lemma storeClient_applyTo:
  assumes "distinct (map fst (clients m))" and "map_of (clients m) nm = Some cl"
  shows "storeClient m nm (snd (op cl)) = applyTo op {nm} m"
proof -
  have "\<And>n c. (n, c) \<in> set (clients m) \<Longrightarrow> n = nm \<Longrightarrow> c = cl"
    using assms by (metis map_of_distinct_entry option.inject)
  then have "map (\<lambda>(n, c). if n = nm then (n, snd (op cl)) else (n, c)) (clients m) =
             map (\<lambda>(n, c). if n \<in> {nm} then (n, snd (op c)) else (n, c)) (clients m)"
    by (intro map_cong) auto
  then show ?thesis by (simp add: storeClient_def applyTo_def)
qed

lemma applyTo_keys: "map fst (clients (applyTo op S m)) = map fst (clients m)"
  by (simp add: applyTo_def comp_def case_prod_beta if_distrib cong: if_cong)

lemma map_of_map_on:
  "map_of (map (\<lambda>(n, c). if n \<in> S then (n, f c) else (n, c)) xs) k =
     (if k \<in> S then map_option f (map_of xs k) else map_of xs k)"
  by (induction xs) auto

lemma applyTo_lookup:
  "map_of (clients (applyTo op S m)) n =
     (if n \<in> S then map_option (\<lambda>c. snd (op c)) (map_of (clients m) n) else map_of (clients m) n)"
  by (simp add: applyTo_def map_of_map_on)

lemma applyTo_applyTo:
  "applyTo op {n} (applyTo op S m) = applyTo op (insert n S) m" if "n \<notin> S"
proof -
  have "map ((\<lambda>(k, c). if k \<in> {n} then (k, snd (op c)) else (k, c)) \<circ>
             (\<lambda>(k, c). if k \<in> S then (k, snd (op c)) else (k, c))) (clients m) =
        map (\<lambda>(k, c). if k \<in> insert n S then (k, snd (op c)) else (k, c)) (clients m)"
    using that by (intro map_cong) auto
  then show ?thesis by (simp add: applyTo_def)
qed

lemma applyTo_absent:
  "map_of (clients m) n = None \<Longrightarrow> applyTo op (insert n S) m = applyTo op S m"
proof -
  assume "map_of (clients m) n = None"
  then have "n \<notin> fst ` set (clients m)" by (simp add: map_of_eq_None_iff)
  then have "map (\<lambda>(k, c). if k \<in> insert n S then (k, snd (op c)) else (k, c)) (clients m) =
             map (\<lambda>(k, c). if k \<in> S then (k, snd (op c)) else (k, c)) (clients m)"
    by (intro map_cong) force+
  then show ?thesis by (simp add: applyTo_def)
qed

lemma applyTo_empty: "applyTo op {} m = m"
  by (simp add: applyTo_def)

lemma applyTo_all:
  assumes "fst ` set (clients m) \<subseteq> S"
  shows "applyTo op S m = m\<lparr>clients := map (\<lambda>(n, c). (n, snd (op c))) (clients m)\<rparr>"
proof -
  have "map (\<lambda>(n, c). if n \<in> S then (n, snd (op c)) else (n, c)) (clients m) =
        map (\<lambda>(n, c). (n, snd (op c))) (clients m)"
    using assms by (intro map_cong) force+
  then show ?thesis by (simp add: applyTo_def)
qed

lemma fold_goTask:
  assumes "distinct (map fst (clients m))" and "distinct ns" and "set ns \<inter> S = {}"
    and "length ch + length ns \<le> cap"
  shows "fold (goTask op msg cap) ns (applyTo op S m, ch) =
           (applyTo op (set ns \<union> S) m, ch @ taskErrors op msg m ns)"
  using assms
proof (induction ns arbitrary: S ch)
  case Nil
  then show ?case by (simp add: taskErrors_def map_filter_simps)
next
  case (Cons n ns)
  have nS: "n \<notin> S" using Cons.prems(3) by auto
  have look: "map_of (clients (applyTo op S m)) n = map_of (clients m) n"
    using nS by (simp add: applyTo_lookup)
  have dist: "distinct (map fst (clients (applyTo op S m)))"
    using Cons.prems(1) by (simp add: applyTo_keys)
  show ?case
  proof (cases "map_of (clients m) n")
    case None
    have step: "goTask op msg cap n (applyTo op S m, ch) = (applyTo op (insert n S) m, ch)"
      using None look by (simp add: goTask_def applyTo_absent)
    have "fold (goTask op msg cap) ns (applyTo op (insert n S) m, ch) =
            (applyTo op (set ns \<union> insert n S) m, ch @ taskErrors op msg m ns)"
      using Cons.prems by (intro Cons.IH) auto
    then show ?thesis using step None by (simp add: taskErrors_def map_filter_simps)
  next
    case (Some cl)
    have store: "storeClient (applyTo op S m) n (snd (op cl)) = applyTo op (insert n S) m"
      using storeClient_applyTo[OF dist, of n cl op] look Some nS by (simp add: applyTo_applyTo)
    show ?thesis
    proof (cases "fst (op cl)")
      case None
      have step: "goTask op msg cap n (applyTo op S m, ch) = (applyTo op (insert n S) m, ch)"
        using None Some look store by (cases "op cl") (simp add: goTask_def)
      have "fold (goTask op msg cap) ns (applyTo op (insert n S) m, ch) =
              (applyTo op (set ns \<union> insert n S) m, ch @ taskErrors op msg m ns)"
        using Cons.prems by (intro Cons.IH) auto
      then show ?thesis using step None Some by (simp add: taskErrors_def map_filter_simps)
    next
      case (Some err)
      have step: "goTask op msg cap n (applyTo op S m, ch) =
                    (applyTo op (insert n S) m, ch @ [msg n err])"
        using Some \<open>map_of (clients m) n = Some cl\<close> look store Cons.prems(4)
        by (cases "op cl") (simp add: goTask_def chanSend_def)
      have "fold (goTask op msg cap) ns (applyTo op (insert n S) m, ch @ [msg n err]) =
              (applyTo op (set ns \<union> insert n S) m, (ch @ [msg n err]) @ taskErrors op msg m ns)"
        using Cons.prems by (intro Cons.IH) auto
      then show ?thesis using step Some \<open>map_of (clients m) n = Some cl\<close> by (simp add: taskErrors_def map_filter_simps)
    qed
  qed
qed

lemma fold_goTask_all:
  assumes "distinct (map fst (clients m))" and "distinct order"
    and "set order = set (map fst (clients m))"
  shows "fold (goTask op msg (length (clients m))) order (m, []) =
           (m\<lparr>clients := map (\<lambda>(n, c). (n, snd (op c))) (clients m)\<rparr>, taskErrors op msg m order)"
proof -
  have "length order = length (map fst (clients m))"
    using assms by (metis distinct_card)
  then have len: "length ([] :: string list) + length order \<le> length (clients m)" by simp
  have "fold (goTask op msg (length (clients m))) order (applyTo op {} m, []) =
          (applyTo op (set order \<union> {}) m, [] @ taskErrors op msg m order)"
    using assms(1,2) len by (intro fold_goTask) auto
  then show ?thesis using assms(3) by (simp add: applyTo_empty applyTo_all)
qed

lemma map_filter_empty_iff: "List.map_filter f xs = [] \<longleftrightarrow> (\<forall>x \<in> set xs. f x = None)"
  by (induction xs) (auto simp add: map_filter_simps split: option.splits)

lemma StartAll_result:
  assumes "distinct (map fst (clients m))" and "distinct order"
    and "set order = set (map fst (clients m))"
  shows "StartAll m order =
           ((case List.map_filter (startError m) order of [] \<Rightarrow> None | e # es \<Rightarrow> Some e),
            m\<lparr>clients := map (\<lambda>(n, c). (n, snd (Connect c))) (clients m)\<rparr>)"
proof (cases "clients m = []")
  case True
  then have "order = []" using assms(3) by simp
  then show ?thesis using True by (simp add: StartAll_def map_filter_simps)
next
  case False
  have errs: "taskErrors Connect (\<lambda>nm err. ''failed to start client '' @ nm @ '': '' @ err) m order =
              List.map_filter (startError m) order"
    unfolding taskErrors_def startError_def ..
  show ?thesis
    using False fold_goTask_all[OF assms, of Connect "\<lambda>nm err. ''failed to start client '' @ nm @ '': '' @ err"]
    unfolding errs
    by (simp add: StartAll_def startTask_goTask Let_def split: list.splits)
qed

lemma startError_none_iff:
  assumes "distinct (map fst (clients m))" and "set order = set (map fst (clients m))"
  shows "List.map_filter (startError m) order = [] \<longleftrightarrow>
         list_all (\<lambda>(n, c). fst (Connect c) = None) (clients m)"
proof -
  have "(\<forall>n \<in> set order. startError m n = None) \<longleftrightarrow>
        (\<forall>(n, c) \<in> set (clients m). fst (Connect c) = None)"
  proof
    assume a: "\<forall>n \<in> set order. startError m n = None"
    show "\<forall>(n, c) \<in> set (clients m). fst (Connect c) = None"
    proof clarify
      fix n c assume nc: "(n, c) \<in> set (clients m)"
      then have "n \<in> set order" using assms(2) by force
      moreover have "map_of (clients m) n = Some c" using assms(1) nc by simp
      ultimately show "fst (Connect c) = None" using a by (auto simp add: startError_def)
    qed
  next
    assume a: "\<forall>(n, c) \<in> set (clients m). fst (Connect c) = None"
    show "\<forall>n \<in> set order. startError m n = None"
    proof
      fix n assume "n \<in> set order"
      show "startError m n = None"
      proof (cases "map_of (clients m) n")
        case None then show ?thesis by (simp add: startError_def)
      next
        case (Some c)
        then have "(n, c) \<in> set (clients m)" by (rule map_of_SomeD)
        then show ?thesis using a Some by (auto simp add: startError_def)
      qed
    qed
  qed
  then show ?thesis by (simp add: map_filter_empty_iff list_all_iff)
qed

text \<open>
  C7. For a manager with distinct client names and every order in which the goroutines
  complete, \<open>StartAll\<close> runs \<open>Connect\<close> on every client, whether or not other clients
  fail: afterwards each client is in the state its own \<open>Connect\<close> leaves it in.
  It returns no error exactly when every \<open>Connect\<close> succeeds; otherwise it returns the
  error of the first failing client in completion order, and no other.
\<close>

theorem StartAll_connects_all:
  assumes "distinct (map fst (clients m))" and "distinct order"
    and "set order = set (map fst (clients m))"
  shows "StartAll m order =
           ((case List.map_filter (startError m) order of [] \<Rightarrow> None | e # es \<Rightarrow> Some e),
            m\<lparr>clients := map (\<lambda>(n, c). (n, snd (Connect c))) (clients m)\<rparr>) \<and>
         (fst (StartAll m order) = None) =
           list_all (\<lambda>(n, c). fst (Connect c) = None) (clients m)"
proof -
  have "(fst (StartAll m order) = None) = (List.map_filter (startError m) order = [])"
    unfolding StartAll_result[OF assms] by (simp split: list.splits)
  then show ?thesis
    using StartAll_result[OF assms] startError_none_iff[OF assms(1,3)] by simp
qed

text \<open>
  Witness for C7: of three clients, \<open>weather\<close> and \<open>files\<close> fail to connect. The error
  returned is that of the one that completes first; \<open>github\<close> is connected either way.
\<close>

theorem StartAll_connects_all_witness:
  "distinct (map fst (clients threeClients)) \<and>
   distinct [''files'', ''github'', ''weather''] \<and>
   set [''files'', ''github'', ''weather''] = set (map fst (clients threeClients)) \<and>
   distinct [''weather'', ''files'', ''github''] \<and>
   set [''weather'', ''files'', ''github''] = set (map fst (clients threeClients)) \<and>
   fst (StartAll threeClients [''files'', ''github'', ''weather'']) =
     Some ''failed to start client files: failed to initialize client: handshake failed'' \<and>
   fst (StartAll threeClients [''weather'', ''files'', ''github'']) =
     Some ''failed to start client weather: failed to create SSE client: connection refused'' \<and>
   map (\<lambda>(n, c). (n, IsConnected c)) (clients (snd (StartAll threeClients [''files'', ''github'', ''weather'']))) =
     [(''github'', True), (''weather'', False), (''files'', False)] \<and>
   map (\<lambda>(n, c). (n, IsConnected c)) (clients (snd (StartAll threeClients [''weather'', ''files'', ''github'']))) =
     [(''github'', True), (''weather'', False), (''files'', False)]"
proof -
  have d: "distinct (map fst (clients threeClients))" by (simp add: threeClients_def)
  have d1: "distinct [''files'', ''github'', ''weather'']"
    and d2: "distinct [''weather'', ''files'', ''github'']" by simp_all
  have s1: "set [''files'', ''github'', ''weather''] = set (map fst (clients threeClients))"
    and s2: "set [''weather'', ''files'', ''github''] = set (map fst (clients threeClients))"
    by (auto simp add: threeClients_def)
  have c1: "Connect (freshClient StdioClient ''github'' githubUpstream) =
              (None, (freshClient StdioClient ''github'' githubUpstream)\<lparr>hasClient := True, connected := True\<rparr>)"
    and c2: "Connect (freshClient SSEClient ''weather'' failingUpstream) =
              (Some ''failed to create SSE client: connection refused'',
               freshClient SSEClient ''weather'' failingUpstream)"
    and c3: "Connect (freshClient StdioClient ''files'' filesUpstream) =
              (Some ''failed to initialize client: handshake failed'',
               (freshClient StdioClient ''files'' filesUpstream)\<lparr>hasClient := True\<rparr>)"
    by (simp_all add: Connect_def freshClient_def githubUpstream_def failingUpstream_def
        filesUpstream_def demoUpstream_def)
  have e1: "List.map_filter (startError threeClients) [''files'', ''github'', ''weather''] =
              [''failed to start client files: failed to initialize client: handshake failed'',
               ''failed to start client weather: failed to create SSE client: connection refused'']"
    and e2: "List.map_filter (startError threeClients) [''weather'', ''files'', ''github''] =
              [''failed to start client weather: failed to create SSE client: connection refused'',
               ''failed to start client files: failed to initialize client: handshake failed'']"
    by (simp_all add: map_filter_simps startError_def threeClients_def c1 c2 c3)
  have k1: "connected (snd (Connect (freshClient StdioClient ''github'' githubUpstream)))"
    and k2: "\<not> connected (snd (Connect (freshClient SSEClient ''weather'' failingUpstream)))"
    and k3: "\<not> connected (snd (Connect (freshClient StdioClient ''files'' filesUpstream)))"
    by (simp_all add: c1 c2 c3) (simp_all add: freshClient_def)
  show ?thesis
    using StartAll_connects_all[OF d d1 s1] StartAll_connects_all[OF d d2 s2] d d1 d2 s1 s2
    unfolding e1 e2
    by (simp add: threeClients_def k1 k2 k3 IsConnected_def)
qed

lemma Connect_invariant: "clientInvariant c \<Longrightarrow> clientInvariant (snd (Connect c))"
  by (auto simp add: clientInvariant_def Connect_def Let_def split: ClientKind.splits option.splits)

lemma Disconnect_invariant: "clientInvariant c \<Longrightarrow> clientInvariant (snd (Disconnect c))"
  by (auto simp add: clientInvariant_def Disconnect_def)

lemma Disconnect_not_connected: "clientInvariant c \<Longrightarrow> \<not> connected (snd (Disconnect c))"
  by (auto simp add: Disconnect_def clientInvariant_def)

lemma CreateClient_name:
  "CreateClient up nm cfg = Inr cl \<Longrightarrow> GetName cl = nm \<and> clientInvariant cl"
  by (auto simp add: CreateClient_def NewStdioClient_def NewSSEClient_def NewStreamableClient_def
      GetName_def clientInvariant_def split: if_splits)

lemma map_fst_map_snd: "map fst (map (\<lambda>(n, c). (n, f c)) xs) = map fst xs"
  by (induction xs) auto

lemma StopAll_result:
  assumes "distinct (map fst (clients m))" and "distinct order"
    and "set order = set (map fst (clients m))"
  shows "StopAll m order = (None, m\<lparr>clients := map (\<lambda>(n, c). (n, snd (Disconnect c))) (clients m)\<rparr>)"
proof (cases "clients m = []")
  case True
  then show ?thesis by (simp add: StopAll_def)
next
  case False
  show ?thesis
    using False fold_goTask_all[OF assms, of Disconnect "\<lambda>nm err. ''failed to stop client '' @ nm @ '': '' @ err"]
    by (simp add: StopAll_def stopTask_goTask Let_def)
qed

lemma StopAll_nil: "fst (StopAll m order) = None"
  by (simp add: StopAll_def Let_def split: prod.splits)

text \<open>
  C8. \<open>StopAll\<close> never returns an error. For a manager with distinct client names whose
  clients are in a state that the constructors, \<open>Connect\<close> and \<open>Disconnect\<close> can
  produce, and every order in which the goroutines complete, it runs \<open>Disconnect\<close> on
  every client, whether or not other clients fail; and after \<open>StartAll\<close> followed by
  \<open>StopAll\<close> no client is connected, whichever calls failed.
\<close>

theorem StopAll_disconnects_all:
  assumes "distinct (map fst (clients m))"
    and "distinct order1" and "set order1 = set (map fst (clients m))"
    and "distinct order2" and "set order2 = set (map fst (clients m))"
    and "list_all (\<lambda>(n, c). clientInvariant c) (clients m)"
  shows "fst (StopAll m0 order0) = None \<and>
         StopAll m order2 =
           (None, m\<lparr>clients := map (\<lambda>(n, c). (n, snd (Disconnect c))) (clients m)\<rparr>) \<and>
         StopAll (snd (StartAll m order1)) order2 =
           (None, m\<lparr>clients := map (\<lambda>(n, c). (n, snd (Disconnect (snd (Connect c))))) (clients m)\<rparr>) \<and>
         list_all (\<lambda>(n, c). \<not> IsConnected c) (clients (snd (StopAll (snd (StartAll m order1)) order2)))"
proof -
  let ?m1 = "m\<lparr>clients := map (\<lambda>(n, c). (n, snd (Connect c))) (clients m)\<rparr>"
  have keys: "map fst (clients ?m1) = map fst (clients m)"
    by (simp add: map_fst_map_snd del: map_map)
  have s1: "snd (StartAll m order1) = ?m1"
    using StartAll_result[OF assms(1,2,3)] by simp
  have d1: "distinct (map fst (clients ?m1))" by (subst keys) (rule assms(1))
  have o2: "set order2 = set (map fst (clients ?m1))" by (subst keys) (rule assms(5))
  have stop: "StopAll ?m1 order2 =
      (None, m\<lparr>clients := map (\<lambda>(n, c). (n, snd (Disconnect (snd (Connect c))))) (clients m)\<rparr>)"
    using StopAll_result[OF d1 assms(4) o2] by (simp add: comp_def case_prod_beta)
  have "\<And>n c. (n, c) \<in> set (clients m) \<Longrightarrow> \<not> connected (snd (Disconnect (snd (Connect c))))"
    using assms(6) by (auto simp add: list_all_iff intro!: Disconnect_not_connected Connect_invariant)
  then have off: "list_all (\<lambda>(n, c). \<not> IsConnected c)
                    (map (\<lambda>(n, c). (n, snd (Disconnect (snd (Connect c))))) (clients m))"
    by (auto simp add: list_all_iff IsConnected_def)
  show ?thesis
    using StopAll_nil StopAll_result[OF assms(1,4,5)] stop s1 off
    by simp
qed

text \<open>
  Witness for C8: two of three clients fail to connect and the \<open>Close\<close> of the third
  fails; \<open>StopAll\<close> returns no error and no client is connected afterwards.
\<close>

theorem StopAll_disconnects_all_witness:
  "distinct (map fst (clients threeClients)) \<and>
   distinct [''files'', ''github'', ''weather''] \<and>
   set [''files'', ''github'', ''weather''] = set (map fst (clients threeClients)) \<and>
   distinct [''weather'', ''files'', ''github''] \<and>
   set [''weather'', ''files'', ''github''] = set (map fst (clients threeClients)) \<and>
   list_all (\<lambda>(n, c). clientInvariant c) (clients threeClients) \<and>
   fst (Disconnect (snd (Connect (freshClient StdioClient ''github'' githubUpstream)))) =
     Some ''broken pipe'' \<and>
   fst (StopAll (snd (StartAll threeClients [''files'', ''github'', ''weather'']))
          [''weather'', ''files'', ''github'']) = None \<and>
   map (\<lambda>(n, c). (n, IsConnected c))
     (clients (snd (StopAll (snd (StartAll threeClients [''files'', ''github'', ''weather'']))
                      [''weather'', ''files'', ''github'']))) =
     [(''github'', False), (''weather'', False), (''files'', False)]"
proof -
  have d: "distinct (map fst (clients threeClients))" by (simp add: threeClients_def)
  have d1: "distinct [''files'', ''github'', ''weather'']"
    and d2: "distinct [''weather'', ''files'', ''github'']" by simp_all
  have s1: "set [''files'', ''github'', ''weather''] = set (map fst (clients threeClients))"
    and s2: "set [''weather'', ''files'', ''github''] = set (map fst (clients threeClients))"
    by (auto simp add: threeClients_def)
  have inv: "list_all (\<lambda>(n, c). clientInvariant c) (clients threeClients)"
    by (simp add: threeClients_def clientInvariant_def freshClient_def)
  have f1: "fst (Disconnect (snd (Connect (freshClient StdioClient ''github'' githubUpstream)))) =
              Some ''broken pipe''"
    and n1: "\<not> connected (snd (Disconnect (snd (Connect (freshClient StdioClient ''github'' githubUpstream)))))"
    and n2: "\<not> connected (snd (Disconnect (snd (Connect (freshClient SSEClient ''weather'' failingUpstream)))))"
    and n3: "\<not> connected (snd (Disconnect (snd (Connect (freshClient StdioClient ''files'' filesUpstream)))))"
    by (simp_all add: Connect_def Disconnect_def freshClient_def githubUpstream_def
        failingUpstream_def filesUpstream_def demoUpstream_def)
  show ?thesis
    using StopAll_disconnects_all[OF d d1 s1 d2 s2 inv] d d1 d2 s1 s2 inv
    by (simp add: threeClients_def f1 n1 n2 n3 IsConnected_def)
qed

section \<open>Verified properties: the start of the application\<close>

lemma createClients_keys:
  "createClients ups xs m = Inr m' \<Longrightarrow> distinct (map fst (clients m)) \<Longrightarrow>
   map fst (clients m') = map fst (clients m) @ map fst xs \<and> distinct (map fst (clients m'))"
proof (induction xs arbitrary: m)
  case Nil
  then show ?case by simp
next
  case (Cons x xs)
  obtain nm sc where x: "x = (nm, sc)" by (cases x)
  from Cons.prems(1) x obtain cl where cc: "CreateClient (ups nm) nm sc = Inr cl"
    by (auto split: sum.splits)
  from Cons.prems(1) x cc obtain m1 where add: "AddClient m cl = (None, m1)"
    and rest: "createClients ups xs m1 = Inr m'"
    by (auto split: prod.splits option.splits)
  have nmcl: "GetName cl = nm" using CreateClient_name[OF cc] by simp
  from add nmcl have fresh: "map_of (clients m) nm = None" and m1: "clients m1 = clients m @ [(nm, cl)]"
    by (auto simp add: AddClient_def Let_def split: if_splits)
  from fresh have "nm \<notin> set (map fst (clients m))" by (simp add: map_of_eq_None_iff)
  then have d1: "distinct (map fst (clients m1))" using Cons.prems(2) m1 by simp
  from Cons.IH[OF rest d1] have k: "map fst (clients m') = map fst (clients m1) @ map fst xs"
    and d: "distinct (map fst (clients m'))" by blast+
  have "map fst (clients m') = map fst (clients m) @ map fst (x # xs)"
    unfolding k m1 x by simp
  then show ?case using d by blast
qed

text \<open>
  What \<open>Run\<close> does with the result of \<open>StartAll\<close>, for every configuration that loads
  and validates and for which the clients can be created: it returns the error of the
  first failed connect, and goes on to \<open>createHTTPServer\<close> only when every connect
  succeeded. No option of the configuration is read for this.
\<close>

lemma Run_returns_StartAll_error:
  assumes "Load input = Inr cfg"
    and "Validate (unicodeLower env) (Some cfg) = None"
    and "createClients (upstreamOf env) (Servers cfg) NewManager = Inr m"
    and "distinct order1" and "set order1 = set (map fst (Servers cfg))"
  shows "Run env input order1 order2 =
           (case List.map_filter (startError m) order1 of
              [] \<Rightarrow> createHTTPServer env cfg
                      (m\<lparr>clients := map (\<lambda>(n, c). (n, snd (Connect c))) (clients m)\<rparr>) order2
            | err # errs \<Rightarrow> Some (Returned err)) \<and>
         (List.map_filter (startError m) order1 = []) =
           list_all (\<lambda>(n, c). fst (Connect c) = None) (clients m)"
proof -
  have d0: "distinct (map fst (clients NewManager))" by (simp add: NewManager_def)
  from createClients_keys[OF assms(3) d0]
  have k: "map fst (clients m) = map fst (clients NewManager) @ map fst (Servers cfg)"
    and dist: "distinct (map fst (clients m))" by blast+
  have keys: "map fst (clients m) = map fst (Servers cfg)" unfolding k by (simp add: NewManager_def)
  have ord: "set order1 = set (map fst (clients m))" using assms(5) keys by simp
  show ?thesis
    using StartAll_result[OF dist assms(4) ord] startError_none_iff[OF dist ord] assms(1,2,3)
    by (simp add: Run_def split: list.splits)
qed

lemma demo_routes:
  "mcpRoute ''/api'' ''github'' = ''/api/github/''" "mcpRoute ''/api'' ''weather'' = ''/api/weather/''"
  "mcpRoute ''/api'' ''a'' = ''/api/a/''" "mcpRoute ''/api'' ''a/'' = ''/api/a/''"
  by (simp_all add: mcpRoute_def path_Join_def path_Clean_def cleanStep_def HasPrefix_def HasSuffix_def)

text \<open>
  C5. The code does not do what the claim says. The configuration carries the option
  \<open>panicIfInvalid\<close>, and \<open>setDefaults\<close> hands it down to every server, but \<open>Run\<close> never
  reads it. With the option false as with the option true, one upstream that cannot be
  reached makes \<open>Run\<close> return the error of \<open>StartAll\<close>: the HTTP server is not started
  and the upstream that did connect is not served. The same configuration with both
  upstreams reachable starts the server with both routes.
\<close>

theorem Run_ignores_panicIfInvalid:
  "Run demoEnv (Parsed (demoConfig False)) [''weather'', ''github''] [''github'', ''weather''] =
     Some (Returned ''failed to start client weather: failed to create SSE client: connection refused'') \<and>
   Run demoEnv (Parsed (demoConfig True)) [''weather'', ''github''] [''github'', ''weather''] =
     Some (Returned ''failed to start client weather: failed to create SSE client: connection refused'') \<and>
   map_option (\<lambda>sc. map_option PanicIfInvalid (Options sc))
     (map_of (Servers (setDefaults (demoConfig False))) ''weather'') = Some (Some (Some False)) \<and>
   map_option (\<lambda>sc. map_option PanicIfInvalid (Options sc))
     (map_of (Servers (setDefaults (demoConfig True))) ''weather'') = Some (Some (Some True)) \<and>
   map_option (case_Startup (\<lambda>err. []) (\<lambda>msg. []) (\<lambda>srv. map routePattern (serverMux srv)))
     (Run reachableEnv (Parsed (demoConfig False)) [''weather'', ''github''] [''github'', ''weather'']) =
     Some [''/api/github/'', ''/api/weather/'']"
proof -
  have a: "\<And>b. Run demoEnv (Parsed (demoConfig b)) [''weather'', ''github''] [''github'', ''weather''] =
     Some (Returned ''failed to start client weather: failed to create SSE client: connection refused'')"
    by (simp add: Run_def setDefaults_def Let_def setServerDefaults_def inheritProxyDefaults_def
      demoConfig_def demoServerConfig_def demoProxyOptions_def demoProxyConfig_def emptyOptions_def
      weatherServerConfig_def detectTransportType_def
      Validate_def validateProxyConfig_def validateServerConfig_def contains_def
      TransportTypeSSE_def TransportTypeHTTP_def ClientTypeStdio_def ClientTypeSSE_def ClientTypeStreamable_def
      CreateClient_def NewStdioClient_def NewSSEClient_def AddClient_def NewManager_def GetName_def
      demoEnv_def StartAll_def startTask_def Connect_def storeClient_def chanSend_def
      failingUpstream_def demoUpstream_def)
  have p: "\<And>b. map_option (\<lambda>sc. map_option PanicIfInvalid (Options sc))
     (map_of (Servers (setDefaults (demoConfig b))) ''weather'') = Some (Some (Some b))"
    by (simp add: setDefaults_def Let_def setServerDefaults_def inheritProxyDefaults_def
      demoConfig_def demoProxyOptions_def demoProxyConfig_def weatherServerConfig_def)
  have b: "map_option (case_Startup (\<lambda>err. []) (\<lambda>msg. []) (\<lambda>srv. map routePattern (serverMux srv)))
     (Run reachableEnv (Parsed (demoConfig False)) [''weather'', ''github''] [''github'', ''weather'']) =
     Some [''/api/github/'', ''/api/weather/'']"
    by (simp add: Run_def setDefaults_def Let_def setServerDefaults_def inheritProxyDefaults_def
      demoConfig_def demoServerConfig_def demoProxyOptions_def demoProxyConfig_def emptyOptions_def
      weatherServerConfig_def detectTransportType_def
      Validate_def validateProxyConfig_def validateServerConfig_def contains_def
      TransportTypeSSE_def TransportTypeHTTP_def ClientTypeStdio_def ClientTypeSSE_def ClientTypeStreamable_def
      CreateClient_def NewStdioClient_def NewSSEClient_def AddClient_def NewManager_def GetName_def
      reachableEnv_def demoEnv_def demoMuxPanic_def StartAll_def startTask_def Connect_def
      storeClient_def chanSend_def demoUpstream_def
      createHTTPServer_def GetClients_def routeTask_def NewProxyServer_def RegisterClient_def
      addClientResources_def addTools_def addPrompts_def addResources_def addResourceTemplates_def
      addTools_loop.simps addPrompts_loop.simps addResources_loop.simps addResourceTemplates_loop.simps
      ListTools_def ListPrompts_def ListResources_def ListResourceTemplates_def demoListTools_def demoPages_def
      createToolFilter_def AddTool_def mkTool_def demo_routes)
  show ?thesis using a p b by simp
qed

text \<open>
  The panic of \<open>mux.Handle\<close>: the server names \<open>a\<close> and \<open>a/\<close> give the same route
  prefix, the second registration is refused, and the process ends with the panic.
\<close>

lemma Run_duplicate_route_crashes:
  "Run reachableEnv (Parsed clashConfig) [''a'', ''a/''] [''a'', ''a/''] =
     Some (Crashed ''pattern /api/a/ conflicts with pattern /api/a/'')"
  by (simp add: Run_def setDefaults_def Let_def setServerDefaults_def inheritProxyDefaults_def
      clashConfig_def demoServerConfig_def demoProxyConfig_def emptyOptions_def
      Validate_def validateProxyConfig_def validateServerConfig_def contains_def
      TransportTypeSSE_def TransportTypeHTTP_def ClientTypeStdio_def ClientTypeSSE_def ClientTypeStreamable_def
      CreateClient_def NewStdioClient_def AddClient_def NewManager_def GetName_def
      reachableEnv_def demoEnv_def demoMuxPanic_def StartAll_def startTask_def Connect_def
      storeClient_def chanSend_def demoUpstream_def
      createHTTPServer_def GetClients_def routeTask_def NewProxyServer_def RegisterClient_def
      addClientResources_def addTools_def addPrompts_def addResources_def addResourceTemplates_def
      addTools_loop.simps addPrompts_loop.simps addResources_loop.simps addResourceTemplates_loop.simps
      ListTools_def ListPrompts_def ListResources_def ListResourceTemplates_def demoListTools_def demoPages_def
      createToolFilter_def AddTool_def mkTool_def demo_routes)

end
